theory Spec2Isabelle
  imports Complex_Main "HOL-Library.Sublist"
begin

section \<open>Decimal amounts\<close>

text \<open>
  build.go computes every amount with \<^verbatim>\<open>decimal.Decimal\<close> (shopspring/decimal): an
  arbitrary-precision base-10 number. \<^verbatim>\<open>Add\<close>, \<^verbatim>\<open>Sub\<close> and \<^verbatim>\<open>Mul\<close> are exact, so an
  amount is modelled as a rational and these three are \<open>+\<close>, \<open>-\<close> and \<open>*\<close>.
  \<^verbatim>\<open>Div\<close> is the one operation that is neither exact nor total: it panics with
  "decimal division by 0" on a zero divisor, and otherwise returns the quotient rounded to
  \<^verbatim>\<open>DivisionPrecision\<close> (16) digits after the decimal point, halves away from zero.
\<close>

type_synonym money = rat

datatype error = DivisionByZero | ValidationError | DrawingError

definition DivisionPrecision :: nat where
  "DivisionPrecision = 16"

definition roundHalfAway :: "rat \<Rightarrow> int" where
  "roundHalfAway q = (if 0 \<le> q then \<lfloor>q + 1 / 2\<rfloor> else - \<lfloor>- q + 1 / 2\<rfloor>)"

definition divRound :: "money \<Rightarrow> money \<Rightarrow> money" where
  "divRound a b =
     of_int (roundHalfAway (a / b * 10 ^ DivisionPrecision)) / 10 ^ DivisionPrecision"

definition Div :: "money \<Rightarrow> money \<Rightarrow> error + money" where
  "Div a b = (if b = 0 then Inl DivisionByZero else Inr (divRound a b))"

text \<open>
  \<^verbatim>\<open>x.Div(decimal.NewFromFloat(100))\<close>: the divisor is the constant 100, so the panic
  branch of \<open>Div\<close> is unreachable (lemma \<open>Div_100\<close> below) and the call is a plain value.
\<close>

definition DivBy100 :: "money \<Rightarrow> money" where
  "DivBy100 x = divRound x 100"

definition bindE :: "error + 'a \<Rightarrow> ('a \<Rightarrow> error + 'b) \<Rightarrow> error + 'b" where
  "bindE m f = (case m of Inl e \<Rightarrow> Inl e | Inr v \<Rightarrow> f v)"

section \<open>Discount, tax and line items\<close>

text \<open>
  Modelled from the spec: the declarations of \<^verbatim>\<open>Discount\<close>, \<^verbatim>\<open>Tax\<close> and \<^verbatim>\<open>Item\<close> and
  their methods \<^verbatim>\<open>getDiscount\<close>, \<^verbatim>\<open>getTax\<close>, \<^verbatim>\<open>totalWithoutTaxAndWithDiscount\<close> and
  \<^verbatim>\<open>taxWithDiscount\<close> are not in build.go. The spec gives Discount and Tax as the
  variants Percent | Amount; build.go reads them through a getter that returns the
  variant's tag as a string ("amount", "percent") and its number.
\<close>

datatype discount = DiscountPercent money | DiscountAmount money

datatype tax = TaxPercent money | TaxAmount money

text \<open>
  Modelled from the spec: \<^verbatim>\<open>getDiscount\<close> and \<^verbatim>\<open>getTax\<close>, which are not in build.go,
  return the tag build.go compares with "amount" and "percent", and the number.
\<close>

fun getDiscount :: "discount \<Rightarrow> string \<times> money" where
  "getDiscount (DiscountPercent p) = (''percent'', p)"
| "getDiscount (DiscountAmount a) = (''amount'', a)"

fun getTax :: "tax \<Rightarrow> string \<times> money" where
  "getTax (TaxPercent p) = (''percent'', p)"
| "getTax (TaxAmount a) = (''amount'', a)"

text \<open>
  Modelled from the spec: the line item, whose declaration is not in build.go, has a
  quantity, a unit price, an optional discount and an optional tax (the field
  \<^verbatim>\<open>Tax\<close> of build.go).
\<close>

record item =
  quantity :: money
  unitPrice :: money
  itemDiscount :: "discount option"
  Tax :: "tax option"

text \<open>
  Modelled from the spec: a discount or a tax resolves against a base amount,
  Percent(p) to base * p / 100 and Amount(a) to a.
\<close>

fun resolveDiscount :: "discount \<Rightarrow> money \<Rightarrow> money" where
  "resolveDiscount (DiscountPercent p) base = DivBy100 (base * p)"
| "resolveDiscount (DiscountAmount a) base = a"

fun resolveTax :: "tax \<Rightarrow> money \<Rightarrow> money" where
  "resolveTax (TaxPercent p) base = DivBy100 (base * p)"
| "resolveTax (TaxAmount a) base = a"

text \<open>Modelled from the spec: subtotal() = quantity * unitPrice.\<close>

definition subtotal :: "item \<Rightarrow> money" where
  "subtotal i = quantity i * unitPrice i"

text \<open>
  Modelled from the spec: totalWithoutTaxAndWithDiscount() is
  subtotal() - discount.resolve(subtotal()) if the item's discount is set, else subtotal().
\<close>

definition totalWithoutTaxAndWithDiscount :: "item \<Rightarrow> money" where
  "totalWithoutTaxAndWithDiscount i =
     (case itemDiscount i of
        None \<Rightarrow> subtotal i
      | Some disc \<Rightarrow> subtotal i - resolveDiscount disc (subtotal i))"

text \<open>
  Modelled from the spec: taxWithDiscount() is
  tax.resolve(totalWithoutTaxAndWithDiscount()) on the item's tax. The spec gives no
  rule for an item that has no tax (and got none from the document's default); here it
  carries no tax, as in the guard \<^verbatim>\<open>item.Tax != nil\<close> of appendTotal.
\<close>

definition taxWithDiscount :: "item \<Rightarrow> money" where
  "taxWithDiscount i =
     (case Tax i of
        None \<Rightarrow> 0
      | Some t \<Rightarrow> resolveTax t (totalWithoutTaxAndWithDiscount i))"

section \<open>The totals computed by appendTotal\<close>

text \<open>
  The arithmetic of appendTotal (build.go, lines 308 to 368), block by block. The
  function's local variables \<^verbatim>\<open>total\<close>, \<^verbatim>\<open>totalWithDiscount\<close>, \<^verbatim>\<open>totalTax\<close>,
  \<^verbatim>\<open>totalWithTax\<close> and \<^verbatim>\<open>discountPercent\<close> are returned as the fields of a record,
  capitalised; \<^verbatim>\<open>discountPercent\<close>, which exists only in the branch taken when the
  document has a discount, is the optional field \<open>DiscountPct\<close>. In the definitions
  the local variable \<^verbatim>\<open>total\<close> is written \<open>total'\<close>, since \<open>total\<close> is a constant
  of HOL.
\<close>

record totals =
  Total :: money
  TotalWithDiscount :: money
  TotalTax :: money
  TotalWithTax :: money
  DiscountPct :: "money option"

text \<open>Lines 309 to 313: \<^verbatim>\<open>total = total.Add(item.totalWithoutTaxAndWithDiscount())\<close>.\<close>

definition sumItemTotals :: "item list \<Rightarrow> money" where
  "sumItemTotals its =
     foldl (\<lambda>total i. total + totalWithoutTaxAndWithDiscount i) 0 its"

text \<open>
  Lines 316 to 327: \<^verbatim>\<open>totalWithDiscount\<close> starts at 0 and is assigned only when the
  document has a discount.
\<close>

definition applyDocumentDiscount :: "discount option \<Rightarrow> money \<Rightarrow> money" where
  "applyDocumentDiscount docDiscount total' =
     (case docDiscount of
        None \<Rightarrow> 0
      | Some disc \<Rightarrow>
          (case getDiscount disc of
             (discountType, discountNumber) \<Rightarrow>
               if discountType = ''amount'' then total' - discountNumber
               else total' - total' * DivBy100 discountNumber))"

text \<open>Lines 336 to 341: the effective discount percentage.\<close>

definition effectiveDiscountPercent :: "discount \<Rightarrow> money \<Rightarrow> error + money" where
  "effectiveDiscountPercent disc totalWithDiscount =
     (case getDiscount disc of
        (discountType, discountAmount) \<Rightarrow>
          if discountType = ''amount'' then Div (discountAmount * 100) totalWithDiscount
          else Inr discountAmount)"

text \<open>Lines 344 to 360: the body of the tax loop when the document has a discount.\<close>

definition addDiscountedTax :: "money \<Rightarrow> money \<Rightarrow> item \<Rightarrow> money" where
  "addDiscountedTax discountPercent totalTax i =
     (case Tax i of
        None \<Rightarrow> totalTax
      | Some t \<Rightarrow>
          (case getTax t of
             (taxType, taxAmount) \<Rightarrow>
               if taxType = ''amount'' then totalTax + taxAmount
               else
                 (let itemTotal = totalWithoutTaxAndWithDiscount i;
                      toSub = DivBy100 (discountPercent * itemTotal);
                      itemTotalDiscounted = itemTotal - toSub;
                      itemTaxDiscounted = DivBy100 (taxAmount * itemTotalDiscounted)
                  in totalTax + itemTaxDiscounted)))"

text \<open>Lines 330 to 362: \<^verbatim>\<open>totalTax\<close>, with \<^verbatim>\<open>discountPercent\<close> when there is one.\<close>

definition sumTax :: "discount option \<Rightarrow> item list \<Rightarrow> money \<Rightarrow> error + money \<times> money option" where
  "sumTax docDiscount its totalWithDiscount =
     (case docDiscount of
        None \<Rightarrow> Inr (foldl (\<lambda>totalTax i. totalTax + taxWithDiscount i) 0 its, None)
      | Some disc \<Rightarrow>
          bindE (effectiveDiscountPercent disc totalWithDiscount)
            (\<lambda>discountPercent.
               Inr (foldl (addDiscountedTax discountPercent) 0 its, Some discountPercent)))"

text \<open>Lines 308 to 368 together.\<close>

definition computeTotals :: "discount option \<Rightarrow> item list \<Rightarrow> error + totals" where
  "computeTotals docDiscount its =
     (let total' = sumItemTotals its;
          totalWithDiscount = applyDocumentDiscount docDiscount total'
      in bindE (sumTax docDiscount its totalWithDiscount)
           (\<lambda>(totalTax, discountPercent).
              Inr \<lparr> Total = total',
                    TotalWithDiscount = totalWithDiscount,
                    TotalTax = totalTax,
                    TotalWithTax =
                      (if docDiscount \<noteq> None then totalWithDiscount + totalTax
                       else total' + totalTax),
                    DiscountPct = discountPercent \<rparr>))"

section \<open>The document\<close>

text \<open>
  Modelled from the spec: the declaration of \<^verbatim>\<open>Document\<close> and of its options is not in
  build.go. The fields are the ones build.go reads. \<^verbatim>\<open>Header\<close>, \<^verbatim>\<open>Footer\<close>,
  \<^verbatim>\<open>Company\<close> and \<^verbatim>\<open>Customer\<close> are structs that build.go only passes on to
  methods defined elsewhere, so their content is an opaque text here.
\<close>

record options =
  AutoPrint :: bool
  CurrencySymbol :: string
  CurrencyPrecision :: int
  CurrencyDecimal :: string
  CurrencyThousand :: string
  TextRefTitle :: string
  TextVersionTitle :: string
  TextDateTitle :: string
  TextItemsNameTitle :: string
  TextItemsUnitCostTitle :: string
  TextItemsQuantityTitle :: string
  TextItemsTotalHTTitle :: string
  TextItemsTaxTitle :: string
  TextItemsDiscountTitle :: string
  TextItemsTotalTTCTitle :: string
  TextTotalTotal :: string
  TextTotalDiscounted :: string
  TextTotalTax :: string
  TextTotalWithTax :: string
  TextPaymentTermTitle :: string

datatype headerFooter = HeaderFooter string

datatype contact = Contact string

record document =
  Options :: options
  Header :: "headerFooter option"
  Footer :: "headerFooter option"
  Ref :: string
  Version :: string
  Date :: string
  Description :: string
  Notes :: string
  PaymentTerm :: string
  Company :: contact
  Customer :: contact
  Items :: "item list"
  Discount :: "discount option"
  DefaultTax :: "tax option"

text \<open>
  Modelled from the spec: \<^verbatim>\<open>Validate\<close> is not in build.go. The spec's one structural
  requirement is that the item list is not empty.
\<close>

definition Validate :: "document \<Rightarrow> error option" where
  "Validate d = (if Items d = [] then Some ValidationError else None)"

section \<open>The drawing surface\<close>

text \<open>
  build.go draws on a \<^verbatim>\<open>gofpdf.Fpdf\<close>. The surface is modelled by what build.go can
  observe of it, the vertical cursor (\<^verbatim>\<open>GetY\<close>); by the settings that decide later
  observations: the top margin, where a new page puts the cursor, the height beyond
  which gofpdf breaks the page by itself (its \<^verbatim>\<open>pageBreakTrigger\<close>), the number of the
  current page and the font size, which \<^verbatim>\<open>GetFontSize\<close> returns; and by the list of the
  calls build.go made on it, oldest first, each with the cursor position it left, and
  beside it the list of the pages the calls ended on. The list of calls is what the
  surface would serialise: it stands for the output. A coordinate is a \<^verbatim>\<open>float64\<close> of
  millimetres in the source and, here, the rational it denotes; the sum of two
  coordinates at run time is the rounded sum of the machine, \<open>float64Add\<close> of the
  environment, and a sum of constants is the exact sum the compiler makes. Positions
  are those of a page: gofpdf reads a negative argument of \<^verbatim>\<open>SetY\<close> from the bottom of
  the page, which is not modelled.
\<close>

datatype call =
    CallNew string string string string
  | CallSetMargins rat rat rat
  | CallSetXY rat rat
  | CallSetX rat
  | CallSetY rat
  | CallSetTextColor int int int
  | CallSetFillColor int int int
  | CallSetFont string string rat
  | CallRect rat rat rat rat string
  | CallCellFormat rat rat string string int string bool int string
  | CallMultiCell rat rat string string string bool
  | CallAddPage
  | CallSetRightMargin rat
  | CallHTMLWrite rat string
  | CallSetJavascript string
  | CallApplyHeader headerFooter
  | CallApplyFooter headerFooter
  | CallAppendCompanyContactToDoc contact
  | CallAppendCustomerContactToDoc contact
  | CallAppendColTo options item

record pdf =
  curY :: rat
  topMargin :: rat
  pageBreakTrigger :: rat
  page :: nat
  fontSizePt :: rat
  calls :: "(call \<times> rat) list"
  callPages :: "nat list"

type_synonym color = "int \<times> int \<times> int"

record accounting =
  Symbol :: string
  Precision :: int
  Thousand :: string
  Decimal :: string

text \<open>
  What build.go takes from the rest of the package, from its libraries and from the
  machine, none of it under src/: the layout constants, the height at which gofpdf
  breaks the page of Build by itself (an A4 page in millimetres with the library's
  bottom margin), the addition of two \<^verbatim>\<open>float64\<close>, the clock, and the functions whose
  results it uses. A function that draws (a text wrapped over several lines, a contact
  block, an item row) is given by where it leaves the cursor and by the number of
  pages it adds on the way.
\<close>

record env =
  BaseMargin :: rat
  BaseMarginTop :: rat
  MaxPageHeight :: rat
  autoPageBreakTrigger :: rat
  float64Add :: "rat \<Rightarrow> rat \<Rightarrow> rat"
  BaseTextColor :: color
  DarkBgColor :: color
  GreyBgColor :: color
  GreyTextColor :: color
  BaseTextFontSize :: rat
  LargeTextFontSize :: rat
  ItemColNameOffset :: rat
  ItemColUnitPriceOffset :: rat
  ItemColQuantityOffset :: rat
  ItemColTotalHTOffset :: rat
  ItemColTaxOffset :: rat
  ItemColDiscountOffset :: rat
  ItemColTotalTTCOffset :: rat
  timeNowFormat :: "string \<Rightarrow> string"
  encodeString :: "string \<Rightarrow> string"
  typeAsString :: "document \<Rightarrow> string"
  FormatMoneyDecimal :: "accounting \<Rightarrow> money \<Rightarrow> string"
  decimalString :: "money \<Rightarrow> string"
  decimalStringFixed :: "money \<Rightarrow> nat \<Rightarrow> string"
  applyHeaderResult :: "headerFooter \<Rightarrow> document \<Rightarrow> error option"
  applyFooterResult :: "headerFooter \<Rightarrow> document \<Rightarrow> error option"
  companyContactBottom :: "contact \<Rightarrow> rat \<Rightarrow> rat"
  customerContactBottom :: "contact \<Rightarrow> rat \<Rightarrow> rat"
  itemColBottom :: "options \<Rightarrow> item \<Rightarrow> rat \<Rightarrow> rat"
  multiCellBottom :: "rat \<Rightarrow> rat \<Rightarrow> string \<Rightarrow> rat \<Rightarrow> rat"
  htmlWriteBottom :: "rat \<Rightarrow> string \<Rightarrow> rat \<Rightarrow> rat"
  companyContactPages :: "contact \<Rightarrow> rat \<Rightarrow> nat"
  customerContactPages :: "contact \<Rightarrow> rat \<Rightarrow> nat"
  itemColPages :: "options \<Rightarrow> item \<Rightarrow> rat \<Rightarrow> nat"
  multiCellPages :: "rat \<Rightarrow> rat \<Rightarrow> string \<Rightarrow> rat \<Rightarrow> nat"
  htmlWritePages :: "rat \<Rightarrow> string \<Rightarrow> rat \<Rightarrow> nat"
  pointToUnit :: "rat \<Rightarrow> rat"

definition red :: "color \<Rightarrow> int" where "red c = fst c"
definition green :: "color \<Rightarrow> int" where "green c = fst (snd c)"
definition blue :: "color \<Rightarrow> int" where "blue c = snd (snd c)"

text \<open>A call is recorded once its effect on the cursor and on the page is made.\<close>

definition emit :: "call \<Rightarrow> pdf \<Rightarrow> pdf" where
  "emit c p = p\<lparr> calls := calls p @ [(c, curY p)], callPages := callPages p @ [page p] \<rparr>"

text \<open>A block of statements: the calls are made in order, each on the surface the last left.\<close>

primrec run :: "(pdf \<Rightarrow> pdf) list \<Rightarrow> pdf \<Rightarrow> pdf" where
  "run [] p = p"
| "run (f # fs) p = run fs (f p)"

text \<open>
  \<^verbatim>\<open>gofpdf.New\<close>. There is no page yet. The cursor, the margin and the font size it
  starts with are overwritten by Build (\<^verbatim>\<open>SetMargins\<close>, \<^verbatim>\<open>SetXY\<close>, \<^verbatim>\<open>SetFont\<close>) before
  they are read; automatic page breaks are on, as the library sets them, and build.go
  never turns them off.
\<close>

definition New :: "env \<Rightarrow> string \<Rightarrow> string \<Rightarrow> string \<Rightarrow> string \<Rightarrow> pdf" where
  "New e orientationStr unitStr sizeStr fontDirStr =
     \<lparr> curY = 0, topMargin = 0, pageBreakTrigger = autoPageBreakTrigger e, page = 0,
       fontSizePt = 12,
       calls = [(CallNew orientationStr unitStr sizeStr fontDirStr, 0)],
       callPages = [0] \<rparr>"

definition GetY :: "pdf \<Rightarrow> rat" where
  "GetY p = curY p"

definition SetMargins :: "rat \<Rightarrow> rat \<Rightarrow> rat \<Rightarrow> pdf \<Rightarrow> pdf" where
  "SetMargins leftM topM rightM p =
     emit (CallSetMargins leftM topM rightM) (p\<lparr> topMargin := topM \<rparr>)"

definition SetXY :: "rat \<Rightarrow> rat \<Rightarrow> pdf \<Rightarrow> pdf" where
  "SetXY x y p = emit (CallSetXY x y) (p\<lparr> curY := y \<rparr>)"

definition SetX :: "rat \<Rightarrow> pdf \<Rightarrow> pdf" where
  "SetX x p = emit (CallSetX x) p"

definition SetY :: "rat \<Rightarrow> pdf \<Rightarrow> pdf" where
  "SetY y p = emit (CallSetY y) (p\<lparr> curY := y \<rparr>)"

text \<open>
  \<^verbatim>\<open>AddPage\<close> starts a page with the cursor at the top margin. The header and footer
  functions that applyHeader and applyFooter may have set, which gofpdf calls at each
  new page, are taken to leave the cursor where they find it.
\<close>

definition AddPage :: "pdf \<Rightarrow> pdf" where
  "AddPage p = emit CallAddPage (p\<lparr> curY := topMargin p, page := page p + 1 \<rparr>)"

definition SetTextColor :: "int \<Rightarrow> int \<Rightarrow> int \<Rightarrow> pdf \<Rightarrow> pdf" where
  "SetTextColor r g b p = emit (CallSetTextColor r g b) p"

definition SetFillColor :: "int \<Rightarrow> int \<Rightarrow> int \<Rightarrow> pdf \<Rightarrow> pdf" where
  "SetFillColor r g b p = emit (CallSetFillColor r g b) p"

definition SetFont :: "string \<Rightarrow> string \<Rightarrow> rat \<Rightarrow> pdf \<Rightarrow> pdf" where
  "SetFont familyStr styleStr sizePt p =
     emit (CallSetFont familyStr styleStr sizePt) (p\<lparr> fontSizePt := sizePt \<rparr>)"

definition GetFontSize :: "env \<Rightarrow> pdf \<Rightarrow> rat \<times> rat" where
  "GetFontSize e p = (fontSizePt p, pointToUnit e (fontSizePt p))"

definition Rect :: "rat \<Rightarrow> rat \<Rightarrow> rat \<Rightarrow> rat \<Rightarrow> string \<Rightarrow> pdf \<Rightarrow> pdf" where
  "Rect x y w h styleStr p = emit (CallRect x y w h styleStr) p"

text \<open>
  gofpdf's automatic page break: a cell of height \<open>h\<close> that would end beyond the
  page break trigger is drawn on a new page, from the top margin.
\<close>

definition autoPageBreak :: "env \<Rightarrow> rat \<Rightarrow> pdf \<Rightarrow> pdf" where
  "autoPageBreak e h p =
     (if float64Add e (curY p) h > pageBreakTrigger p
      then p\<lparr> curY := topMargin p, page := page p + 1 \<rparr>
      else p)"

text \<open>
  \<^verbatim>\<open>CellFormat\<close> breaks the page first when the cell does not fit. With \<^verbatim>\<open>ln = 0\<close>, as
  in every call of build.go, it leaves the cursor on the line of the cell; another
  \<^verbatim>\<open>ln\<close> moves it below the cell.
\<close>

definition CellFormat ::
  "env \<Rightarrow> rat \<Rightarrow> rat \<Rightarrow> string \<Rightarrow> string \<Rightarrow> int \<Rightarrow> string \<Rightarrow> bool \<Rightarrow> int \<Rightarrow> string \<Rightarrow> pdf \<Rightarrow> pdf" where
  "CellFormat e w h txt borderStr lnMode alignStr fill link linkStr p =
     (let p1 = autoPageBreak e h p
      in emit (CallCellFormat w h txt borderStr lnMode alignStr fill link linkStr)
           (if lnMode = 0 then p1 else p1\<lparr> curY := float64Add e (curY p1) h \<rparr>))"

definition MultiCell ::
  "env \<Rightarrow> rat \<Rightarrow> rat \<Rightarrow> string \<Rightarrow> string \<Rightarrow> string \<Rightarrow> bool \<Rightarrow> pdf \<Rightarrow> pdf" where
  "MultiCell e w h txt borderStr alignStr fill p =
     emit (CallMultiCell w h txt borderStr alignStr fill)
       (p\<lparr> curY := multiCellBottom e w h txt (curY p),
           page := page p + multiCellPages e w h txt (curY p) \<rparr>)"

definition SetRightMargin :: "rat \<Rightarrow> pdf \<Rightarrow> pdf" where
  "SetRightMargin m p = emit (CallSetRightMargin m) p"

text \<open>\<^verbatim>\<open>pdf.HTMLBasicNew()\<close> followed by \<^verbatim>\<open>html.Write(lineHt, text)\<close>.\<close>

definition HTMLWrite :: "env \<Rightarrow> rat \<Rightarrow> string \<Rightarrow> pdf \<Rightarrow> pdf" where
  "HTMLWrite e lineHt txt p =
     emit (CallHTMLWrite lineHt txt)
       (p\<lparr> curY := htmlWriteBottom e lineHt txt (curY p),
           page := page p + htmlWritePages e lineHt txt (curY p) \<rparr>)"

definition SetJavascript :: "string \<Rightarrow> pdf \<Rightarrow> pdf" where
  "SetJavascript script p = emit (CallSetJavascript script) p"

text \<open>
  The methods of the package that draw and are not in build.go. \<^verbatim>\<open>applyHeader\<close> and
  \<^verbatim>\<open>applyFooter\<close> may fail; the two contact blocks return their bottom edge; an item
  row leaves the cursor where the row ends. Each may add pages.
\<close>

definition applyHeader :: "env \<Rightarrow> headerFooter \<Rightarrow> document \<Rightarrow> pdf \<Rightarrow> error + pdf" where
  "applyHeader e h d p =
     (case applyHeaderResult e h d of
        Some err \<Rightarrow> Inl err
      | None \<Rightarrow> Inr (emit (CallApplyHeader h) p))"

definition applyFooter :: "env \<Rightarrow> headerFooter \<Rightarrow> document \<Rightarrow> pdf \<Rightarrow> error + pdf" where
  "applyFooter e h d p =
     (case applyFooterResult e h d of
        Some err \<Rightarrow> Inl err
      | None \<Rightarrow> Inr (emit (CallApplyFooter h) p))"

definition appendCompanyContactToDoc :: "env \<Rightarrow> contact \<Rightarrow> pdf \<Rightarrow> rat \<times> pdf" where
  "appendCompanyContactToDoc e c p =
     (let bottom = companyContactBottom e c (curY p)
      in (bottom, emit (CallAppendCompanyContactToDoc c)
            (p\<lparr> curY := bottom, page := page p + companyContactPages e c (curY p) \<rparr>)))"

definition appendCustomerContactToDoc :: "env \<Rightarrow> contact \<Rightarrow> pdf \<Rightarrow> rat \<times> pdf" where
  "appendCustomerContactToDoc e c p =
     (let bottom = customerContactBottom e c (curY p)
      in (bottom, emit (CallAppendCustomerContactToDoc c)
            (p\<lparr> curY := bottom, page := page p + customerContactPages e c (curY p) \<rparr>)))"

definition appendColTo :: "env \<Rightarrow> options \<Rightarrow> item \<Rightarrow> pdf \<Rightarrow> pdf" where
  "appendColTo e opts i p =
     emit (CallAppendColTo opts i)
       (p\<lparr> curY := itemColBottom e opts i (curY p),
           page := page p + itemColPages e opts i (curY p) \<rparr>)"

section \<open>build.go\<close>

text \<open>\<^verbatim>\<open>fmt.Sprintf("%s: %s", a, b)\<close>.\<close>

definition sprintfColon :: "string \<Rightarrow> string \<Rightarrow> string" where
  "sprintfColon a b = a @ '': '' @ b"

text \<open>appendTitle, lines 101 to 114.\<close>

definition appendTitle :: "env \<Rightarrow> document \<Rightarrow> pdf \<Rightarrow> pdf" where
  "appendTitle e d =
     (let title = typeAsString e d
      in run
        [SetXY 120 (BaseMarginTop e),
         SetFillColor (red (DarkBgColor e)) (green (DarkBgColor e)) (blue (DarkBgColor e)),
         Rect 120 (BaseMarginTop e) 80 10 ''F'',
         SetFont ''Helvetica'' '''' 14,
         CellFormat e 80 10 (encodeString e title) ''0'' 0 ''C'' False 0 ''''])"

text \<open>
  appendMetas, lines 116 to 141. The date printed is the document's \<^verbatim>\<open>Date\<close> when it
  has one, and \<^verbatim>\<open>time.Now().Format("02/01/2006")\<close> otherwise.
\<close>

definition appendMetas :: "env \<Rightarrow> document \<Rightarrow> pdf \<Rightarrow> pdf" where
  "appendMetas e d =
     (let refString = sprintfColon (encodeString e (TextRefTitle (Options d))) (Ref d);
          versionString =
            sprintfColon (encodeString e (TextVersionTitle (Options d))) (Version d);
          date = (if length (Date d) > 0 then Date d else timeNowFormat e ''02/01/2006'');
          dateString = sprintfColon (encodeString e (TextDateTitle (Options d))) date
      in run
        ([SetXY 120 (BaseMarginTop e + 11),
          SetFont ''Helvetica'' '''' 8,
          CellFormat e 80 4 (encodeString e refString) ''0'' 0 ''R'' False 0 '''']
         @ (if length (Version d) > 0
            then [SetXY 120 (BaseMarginTop e + 15),
                  SetFont ''Helvetica'' '''' 8,
                  CellFormat e 80 4 (encodeString e versionString) ''0'' 0 ''R'' False 0 '''']
            else [])
         @ [SetXY 120 (BaseMarginTop e + 19),
            SetFont ''Helvetica'' '''' 8,
            CellFormat e 80 4 (encodeString e dateString) ''0'' 0 ''R'' False 0 '''']))"

text \<open>appendDescription, lines 143 to 149.\<close>

definition appendDescription :: "env \<Rightarrow> document \<Rightarrow> pdf \<Rightarrow> pdf" where
  "appendDescription e d =
     (if length (Description d) > 0
      then run
        [\<lambda>p. SetY (float64Add e (GetY p) 10) p,
         SetFont ''Helvetica'' '''' 10,
         MultiCell e 190 5 (encodeString e (Description d)) ''B'' ''L'' False]
      else run [])"

text \<open>drawsTableTitles, lines 151 to 248.\<close>

definition drawsTableTitles :: "env \<Rightarrow> document \<Rightarrow> pdf \<Rightarrow> pdf" where
  "drawsTableTitles e d =
     run
       [SetX 10,
        \<lambda>p. SetY (float64Add e (GetY p) 5) p,
        SetFont ''Helvetica'' ''B'' 8,
        SetFillColor (red (GreyBgColor e)) (green (GreyBgColor e)) (blue (GreyBgColor e)),
        \<lambda>p. Rect 10 (GetY p) 190 6 ''F'' p,
        SetX (ItemColNameOffset e),
        CellFormat e (ItemColUnitPriceOffset e - ItemColNameOffset e) 6
          (encodeString e (TextItemsNameTitle (Options d))) ''0'' 0 '''' False 0 '''',
        SetX (ItemColUnitPriceOffset e),
        CellFormat e (ItemColQuantityOffset e - ItemColUnitPriceOffset e) 6
          (encodeString e (TextItemsUnitCostTitle (Options d))) ''0'' 0 '''' False 0 '''',
        SetX (ItemColQuantityOffset e),
        CellFormat e (ItemColTaxOffset e - ItemColQuantityOffset e) 6
          (encodeString e (TextItemsQuantityTitle (Options d))) ''0'' 0 '''' False 0 '''',
        SetX (ItemColTotalHTOffset e),
        CellFormat e (ItemColTaxOffset e - ItemColTotalHTOffset e) 6
          (encodeString e (TextItemsTotalHTTitle (Options d))) ''0'' 0 '''' False 0 '''',
        SetX (ItemColTaxOffset e),
        CellFormat e (ItemColDiscountOffset e - ItemColTaxOffset e) 6
          (encodeString e (TextItemsTaxTitle (Options d))) ''0'' 0 '''' False 0 '''',
        SetX (ItemColDiscountOffset e),
        CellFormat e (ItemColTotalTTCOffset e - ItemColDiscountOffset e) 6
          (encodeString e (TextItemsDiscountTitle (Options d))) ''0'' 0 '''' False 0 '''',
        SetX (ItemColTotalTTCOffset e),
        CellFormat e (190 - ItemColTotalTTCOffset e) 6
          (encodeString e (TextItemsTotalTTCTitle (Options d))) ''0'' 0 '''' False 0 '''']"

text \<open>
  appendItems, lines 250 to 278. The loop of lines 257 to 277 runs over the items in
  order; its body, lines 258 to 276, is \<open>appendItemsBody\<close>. \<^verbatim>\<open>d.Items\<close> holds
  pointers, so the default tax the loop assigns to an item without tax stays in the
  document: the loop returns the items as it leaves them.
\<close>

definition appendItemsBody :: "env \<Rightarrow> document \<Rightarrow> item \<Rightarrow> pdf \<Rightarrow> item \<times> pdf" where
  "appendItemsBody e d i p =
     (let item1 = (if Tax i = None then i\<lparr> Tax := DefaultTax d \<rparr> else i);
          p1 = appendColTo e (Options d) item1 p;
          p2 = (if GetY p1 > MaxPageHeight e
                then run [AddPage, drawsTableTitles e d, SetFont ''Helvetica'' '''' 8] p1
                else p1)
      in (item1, run [SetX 10, \<lambda>p. SetY (float64Add e (GetY p) 6) p] p2))"

fun appendItemsLoop :: "env \<Rightarrow> document \<Rightarrow> item list \<Rightarrow> pdf \<Rightarrow> item list \<times> pdf" where
  "appendItemsLoop e d [] p = ([], p)"
| "appendItemsLoop e d (i # rest) p =
     (case appendItemsBody e d i p of
        (item1, p1) \<Rightarrow>
          (case appendItemsLoop e d rest p1 of
             (rest1, p2) \<Rightarrow> (item1 # rest1, p2)))"

definition appendItems :: "env \<Rightarrow> document \<Rightarrow> pdf \<Rightarrow> document \<times> pdf" where
  "appendItems e d p =
     (let p0 = run
            [drawsTableTitles e d,
             SetX 10,
             \<lambda>p. SetY (float64Add e (GetY p) 8) p,
             SetFont ''Helvetica'' '''' 8] p;
          (items1, p1) = appendItemsLoop e d (Items d) p0
      in (d\<lparr> Items := items1 \<rparr>, p1))"

text \<open>appendNotes, lines 280 to 298.\<close>

definition appendNotes :: "env \<Rightarrow> document \<Rightarrow> pdf \<Rightarrow> pdf" where
  "appendNotes e d p =
     (if length (Notes d) = 0 then p
      else
        (let currentY = GetY p
         in run
           [SetFont ''Helvetica'' '''' 9,
            SetX (BaseMargin e),
            SetRightMargin 100,
            SetY (float64Add e currentY 10),
            \<lambda>p. (case GetFontSize e p of
                    (ptSize, lineHt) \<Rightarrow> HTMLWrite e lineHt (encodeString e (Notes d)) p),
            SetRightMargin (BaseMargin e),
            SetY currentY] p))"

text \<open>
  appendTotal, lines 300 to 457. Lines 370 to 384 draw the row of the total.
\<close>

definition appendTotalRow :: "env \<Rightarrow> document \<Rightarrow> accounting \<Rightarrow> totals \<Rightarrow> pdf \<Rightarrow> pdf" where
  "appendTotalRow e d ac t =
     run
       [\<lambda>p. SetY (float64Add e (GetY p) 10) p,
        SetFont ''Helvetica'' '''' (LargeTextFontSize e),
        SetTextColor (red (BaseTextColor e)) (green (BaseTextColor e)) (blue (BaseTextColor e)),
        SetX 120,
        SetFillColor (red (DarkBgColor e)) (green (DarkBgColor e)) (blue (DarkBgColor e)),
        \<lambda>p. Rect 120 (GetY p) 40 10 ''F'' p,
        CellFormat e 38 10 (encodeString e (TextTotalTotal (Options d)))
          ''0'' 0 ''R'' False 0 '''',
        SetX 162,
        SetFillColor (red (GreyBgColor e)) (green (GreyBgColor e)) (blue (GreyBgColor e)),
        \<lambda>p. Rect 160 (GetY p) 40 10 ''F'' p,
        CellFormat e 40 10 (FormatMoneyDecimal e ac (Total t)) ''0'' 0 ''L'' False 0 '''']"

text \<open>
  Lines 402 to 415 build the description of the discount; for an amount it divides by
  \<^verbatim>\<open>total\<close>.
\<close>

definition discountDescription ::
  "env \<Rightarrow> accounting \<Rightarrow> discount \<Rightarrow> money \<Rightarrow> money \<Rightarrow> error + string" where
  "discountDescription e ac disc total' totalWithDiscount =
     (case getDiscount disc of
        (discountType, discountAmount) \<Rightarrow>
          if discountType = ''percent''
          then Inr (''-'' @ decimalString e discountAmount @ '' % / -''
                    @ FormatMoneyDecimal e ac (total' - totalWithDiscount))
          else bindE (Div (discountAmount * 100) total')
                 (\<lambda>q. Inr (''-'' @ FormatMoneyDecimal e ac discountAmount @ '' / -''
                            @ decimalStringFixed e q 2 @ '' %'')))"

text \<open>
  Lines 386 to 431: the row of the discounted total, or the step over it. Lines 390 to
  400 draw the title of the row, from \<open>baseY\<close>, before the description is built; lines
  417 to 428 draw the description and the amount.
\<close>

definition discountedTitle :: "env \<Rightarrow> document \<Rightarrow> rat \<Rightarrow> pdf \<Rightarrow> pdf" where
  "discountedTitle e d baseY =
     run
       [SetXY 120 baseY,
        SetFillColor (red (DarkBgColor e)) (green (DarkBgColor e)) (blue (DarkBgColor e)),
        \<lambda>p. Rect 120 (GetY p) 40 15 ''F'' p,
        CellFormat e 38 (15 / 2) (encodeString e (TextTotalDiscounted (Options d)))
          ''0'' 0 ''BR'' False 0 '''',
        SetXY 120 (float64Add e baseY (15 / 2)),
        SetFont ''Helvetica'' '''' (BaseTextFontSize e),
        SetTextColor (red (GreyTextColor e)) (green (GreyTextColor e)) (blue (GreyTextColor e))]"

definition discountedAmount ::
  "env \<Rightarrow> accounting \<Rightarrow> totals \<Rightarrow> rat \<Rightarrow> string \<Rightarrow> pdf \<Rightarrow> pdf" where
  "discountedAmount e ac t baseY descString =
     run
       [CellFormat e 38 (15 / 2) descString ''0'' 0 ''TR'' False 0 '''',
        SetFont ''Helvetica'' '''' (LargeTextFontSize e),
        SetTextColor (red (BaseTextColor e)) (green (BaseTextColor e)) (blue (BaseTextColor e)),
        SetY baseY,
        SetX 162,
        SetFillColor (red (GreyBgColor e)) (green (GreyBgColor e)) (blue (GreyBgColor e)),
        \<lambda>p. Rect 160 (GetY p) 40 15 ''F'' p,
        CellFormat e 40 15 (FormatMoneyDecimal e ac (TotalWithDiscount t))
          ''0'' 0 ''L'' False 0 '''',
        \<lambda>p. SetY (float64Add e (GetY p) 15) p]"

definition appendTotalDiscounted ::
  "env \<Rightarrow> document \<Rightarrow> accounting \<Rightarrow> totals \<Rightarrow> pdf \<Rightarrow> error + pdf" where
  "appendTotalDiscounted e d ac t p =
     (case Discount d of
        None \<Rightarrow> Inr (SetY (float64Add e (GetY p) 10) p)
      | Some disc \<Rightarrow>
          (let baseY = float64Add e (GetY p) 10;
               p1 = discountedTitle e d baseY p
           in bindE (discountDescription e ac disc (Total t) (TotalWithDiscount t))
                (\<lambda>descString. Inr (discountedAmount e ac t baseY descString p1))))"

text \<open>Lines 433 to 456: the row of the tax and the row of the total with tax.\<close>

definition appendTaxRows :: "env \<Rightarrow> document \<Rightarrow> accounting \<Rightarrow> totals \<Rightarrow> pdf \<Rightarrow> pdf" where
  "appendTaxRows e d ac t =
     run
       [SetX 120,
        SetFillColor (red (DarkBgColor e)) (green (DarkBgColor e)) (blue (DarkBgColor e)),
        \<lambda>p. Rect 120 (GetY p) 40 10 ''F'' p,
        CellFormat e 38 10 (encodeString e (TextTotalTax (Options d)))
          ''0'' 0 ''R'' False 0 '''',
        SetX 162,
        SetFillColor (red (GreyBgColor e)) (green (GreyBgColor e)) (blue (GreyBgColor e)),
        \<lambda>p. Rect 160 (GetY p) 40 10 ''F'' p,
        CellFormat e 40 10 (FormatMoneyDecimal e ac (TotalTax t)) ''0'' 0 ''L'' False 0 '''',
        \<lambda>p. SetY (float64Add e (GetY p) 10) p,
        SetX 120,
        SetFillColor (red (DarkBgColor e)) (green (DarkBgColor e)) (blue (DarkBgColor e)),
        \<lambda>p. Rect 120 (GetY p) 40 10 ''F'' p,
        CellFormat e 38 10 (encodeString e (TextTotalWithTax (Options d)))
          ''0'' 0 ''R'' False 0 '''',
        SetX 162,
        SetFillColor (red (GreyBgColor e)) (green (GreyBgColor e)) (blue (GreyBgColor e)),
        \<lambda>p. Rect 160 (GetY p) 40 10 ''F'' p,
        CellFormat e 40 10 (FormatMoneyDecimal e ac (TotalWithTax t))
          ''0'' 0 ''L'' False 0 '''']"

text \<open>
  The whole of appendTotal: the amounts (lines 301 to 368), then the rows. A division
  by zero, in the amounts or in the description of the discount, is a panic:
  appendTotal returns no surface.
\<close>

definition appendTotal :: "env \<Rightarrow> document \<Rightarrow> pdf \<Rightarrow> error + pdf" where
  "appendTotal e d p =
     (let ac = \<lparr> Symbol = encodeString e (CurrencySymbol (Options d)),
                 Precision = CurrencyPrecision (Options d),
                 Thousand = CurrencyThousand (Options d),
                 Decimal = CurrencyDecimal (Options d) \<rparr>
      in bindE (computeTotals (Discount d) (Items d))
           (\<lambda>t. bindE (appendTotalDiscounted e d ac t (appendTotalRow e d ac t p))
                  (\<lambda>p2. Inr (appendTaxRows e d ac t p2))))"

text \<open>appendPaymentTerm, lines 459 to 468.\<close>

definition appendPaymentTerm :: "env \<Rightarrow> document \<Rightarrow> pdf \<Rightarrow> pdf" where
  "appendPaymentTerm e d =
     (if length (PaymentTerm d) > 0
      then
        (let paymentTermString =
               sprintfColon (encodeString e (TextPaymentTermTitle (Options d)))
                 (encodeString e (PaymentTerm d))
         in run
           [\<lambda>p. SetY (float64Add e (GetY p) 15) p,
            SetX 120,
            SetFont ''Helvetica'' ''B'' 10,
            CellFormat e 80 4 paymentTermString ''0'' 0 ''R'' False 0 ''''])
      else run [])"

text \<open>
  Build, lines 14 to 99, in the order of the source. Lines 21 to 43 make the surface and
  set the header and the footer (either may fail); lines 45 to 73 draw everything down
  to the item table; lines 75 to 82 are the page check before the totals; lines 84 to
  98 draw the notes, the totals and the payment term.
\<close>

definition buildBaseDoc :: "env \<Rightarrow> document \<Rightarrow> error + pdf" where
  "buildBaseDoc e d =
     (let pdf0 = run
            [SetMargins (BaseMargin e) (BaseMarginTop e) (BaseMargin e),
             SetXY 10 10,
             SetTextColor (red (BaseTextColor e)) (green (BaseTextColor e))
               (blue (BaseTextColor e))] (New e ''P'' ''mm'' ''A4'' '''')
      in bindE (case Header d of None \<Rightarrow> Inr pdf0 | Some h \<Rightarrow> applyHeader e h d pdf0)
           (\<lambda>pdf1. case Footer d of None \<Rightarrow> Inr pdf1 | Some f \<Rightarrow> applyFooter e f d pdf1))"

definition buildToItems :: "env \<Rightarrow> document \<Rightarrow> pdf \<Rightarrow> document \<times> pdf" where
  "buildToItems e d pdf0 =
     (let pdf1 = run
            [AddPage,
             SetFont ''Helvetica'' '''' 12,
             appendTitle e d,
             appendMetas e d] pdf0;
          (companyBottom, pdf2) = appendCompanyContactToDoc e (Company d) pdf1;
          (customerBottom, pdf3) = appendCustomerContactToDoc e (Customer d) pdf2;
          pdf4 = (if customerBottom > companyBottom then SetXY 10 customerBottom pdf3
                  else SetXY 10 companyBottom pdf3);
          pdf5 = appendDescription e d pdf4
      in appendItems e d pdf5)"

definition checkPageHeight :: "env \<Rightarrow> document \<Rightarrow> pdf \<Rightarrow> pdf" where
  "checkPageHeight e d p =
     (let offset0 = float64Add e (GetY p) 30;
          offset1 = (if Discount d \<noteq> None then float64Add e offset0 15 else offset0)
      in if offset1 > MaxPageHeight e then AddPage p else p)"

definition buildFromNotes :: "env \<Rightarrow> document \<Rightarrow> pdf \<Rightarrow> error + pdf" where
  "buildFromNotes e d p =
     bindE (appendTotal e d (appendNotes e d p))
       (\<lambda>p1.
          (let p2 = appendPaymentTerm e d p1
           in Inr (if AutoPrint (Options d) then SetJavascript ''print(true);'' p2 else p2)))"

definition Build :: "env \<Rightarrow> document \<Rightarrow> error + pdf" where
  "Build e d =
     (case Validate d of
        Some err \<Rightarrow> Inl err
      | None \<Rightarrow>
          bindE (buildBaseDoc e d)
            (\<lambda>pdf0.
               (case buildToItems e d pdf0 of
                  (d1, pdf1) \<Rightarrow> buildFromNotes e d1 (checkPageHeight e d1 pdf1))))"

section \<open>The claims' own notions\<close>

text \<open>
  The definitions of this section are not translations of build.go: they say, in the
  words of the specification, what the theorems below compare the code with.
\<close>

text \<open>
  The tax an item contributes when the document has a discount, as the specification
  words it: the amount itself for a tax given as an amount, and
  taxPercent * (itemTotal - discountPercent * itemTotal / 100) / 100 for a tax given as a
  percentage, where itemTotal is the item's totalWithoutTaxAndWithDiscount(). Each
  division is the decimal division of the code.
\<close>

definition itemTaxContribution :: "money \<Rightarrow> item \<Rightarrow> money" where
  "itemTaxContribution discountPct i =
     (case Tax i of
        None \<Rightarrow> 0
      | Some (TaxAmount a) \<Rightarrow> a
      | Some (TaxPercent taxPercent) \<Rightarrow>
          (let itemTotal = totalWithoutTaxAndWithDiscount i
           in divRound (taxPercent * (itemTotal - divRound (discountPct * itemTotal) 100)) 100))"


text \<open>
  Reading the list of calls. An entry is a page break when it is \<^verbatim>\<open>AddPage\<close>, an item
  row when it is \<^verbatim>\<open>appendColTo\<close>, and a threshold crossing when it is an item row that
  left the cursor beyond \<^verbatim>\<open>MaxPageHeight\<close>.
\<close>

definition isPageBreak :: "call \<times> rat \<Rightarrow> bool" where
  "isPageBreak en = (fst en = CallAddPage)"

definition isRowCall :: "call \<Rightarrow> bool" where
  "isRowCall c = (case c of CallAppendColTo opts i \<Rightarrow> True | _ \<Rightarrow> False)"

definition isItemRow :: "call \<times> rat \<Rightarrow> bool" where
  "isItemRow en = isRowCall (fst en)"

definition crossesThreshold :: "env \<Rightarrow> call \<times> rat \<Rightarrow> bool" where
  "crossesThreshold e en = (isItemRow en \<and> snd en > MaxPageHeight e)"

text \<open>Every threshold crossing is followed at once by a page break.\<close>

fun breakAfterEachCrossing :: "env \<Rightarrow> (call \<times> rat) list \<Rightarrow> bool" where
  "breakAfterEachCrossing e [] = True"
| "breakAfterEachCrossing e [en] = (\<not> crossesThreshold e en)"
| "breakAfterEachCrossing e (en # en' # rest) =
     ((if crossesThreshold e en then isPageBreak en' else True)
      \<and> breakAfterEachCrossing e (en' # rest))"

text \<open>Every page break but a leading one comes at once after a threshold crossing.\<close>

fun breakOnlyAfterCrossing :: "env \<Rightarrow> (call \<times> rat) list \<Rightarrow> bool" where
  "breakOnlyAfterCrossing e [] = True"
| "breakOnlyAfterCrossing e [en] = True"
| "breakOnlyAfterCrossing e (en # en' # rest) =
     ((if isPageBreak en' then crossesThreshold e en else True)
      \<and> breakOnlyAfterCrossing e (en' # rest))"

definition startsWithPageBreak :: "(call \<times> rat) list \<Rightarrow> bool" where
  "startsWithPageBreak tr = (case tr of [] \<Rightarrow> False | en # rest \<Rightarrow> isPageBreak en)"

text \<open>Every page break is followed at once by the calls \<open>hdr\<close>, in order.\<close>

fun headerAfterEachBreak :: "call list \<Rightarrow> (call \<times> rat) list \<Rightarrow> bool" where
  "headerAfterEachBreak hdr [] = True"
| "headerAfterEachBreak hdr (en # rest) =
     ((if isPageBreak en then prefix hdr (map fst rest) else True)
      \<and> headerAfterEachBreak hdr rest)"

text \<open>
  The table header as the specification asks for it after a page break: on a page that
  starts with the cursor at \<open>y\<close>, the grey band five below and, in it, the seven column
  titles of the options, each at the offset of its column; and the texts the cells of a
  list of calls print.
\<close>

definition columnTitles :: "document \<Rightarrow> string list" where
  "columnTitles d =
     [TextItemsNameTitle (Options d), TextItemsUnitCostTitle (Options d),
      TextItemsQuantityTitle (Options d), TextItemsTotalHTTitle (Options d),
      TextItemsTaxTitle (Options d), TextItemsDiscountTitle (Options d),
      TextItemsTotalTTCTitle (Options d)]"

definition tableHeaderCalls :: "env \<Rightarrow> document \<Rightarrow> rat \<Rightarrow> call list" where
  "tableHeaderCalls e d y =
     [CallSetX 10,
      CallSetY (float64Add e y 5),
      CallSetFont ''Helvetica'' ''B'' 8,
      CallSetFillColor (red (GreyBgColor e)) (green (GreyBgColor e)) (blue (GreyBgColor e)),
      CallRect 10 (float64Add e y 5) 190 6 ''F'',
      CallSetX (ItemColNameOffset e),
      CallCellFormat (ItemColUnitPriceOffset e - ItemColNameOffset e) 6
        (encodeString e (TextItemsNameTitle (Options d))) ''0'' 0 '''' False 0 '''',
      CallSetX (ItemColUnitPriceOffset e),
      CallCellFormat (ItemColQuantityOffset e - ItemColUnitPriceOffset e) 6
        (encodeString e (TextItemsUnitCostTitle (Options d))) ''0'' 0 '''' False 0 '''',
      CallSetX (ItemColQuantityOffset e),
      CallCellFormat (ItemColTaxOffset e - ItemColQuantityOffset e) 6
        (encodeString e (TextItemsQuantityTitle (Options d))) ''0'' 0 '''' False 0 '''',
      CallSetX (ItemColTotalHTOffset e),
      CallCellFormat (ItemColTaxOffset e - ItemColTotalHTOffset e) 6
        (encodeString e (TextItemsTotalHTTitle (Options d))) ''0'' 0 '''' False 0 '''',
      CallSetX (ItemColTaxOffset e),
      CallCellFormat (ItemColDiscountOffset e - ItemColTaxOffset e) 6
        (encodeString e (TextItemsTaxTitle (Options d))) ''0'' 0 '''' False 0 '''',
      CallSetX (ItemColDiscountOffset e),
      CallCellFormat (ItemColTotalTTCOffset e - ItemColDiscountOffset e) 6
        (encodeString e (TextItemsDiscountTitle (Options d))) ''0'' 0 '''' False 0 '''',
      CallSetX (ItemColTotalTTCOffset e),
      CallCellFormat (190 - ItemColTotalTTCOffset e) 6
        (encodeString e (TextItemsTotalTTCTitle (Options d))) ''0'' 0 '''' False 0 '''']"

fun cellTexts :: "call list \<Rightarrow> string list" where
  "cellTexts [] = []"
| "cellTexts (CallCellFormat w h txt bo lm al fi li ls # cs) = txt # cellTexts cs"
| "cellTexts (c # cs) = cellTexts cs"


text \<open>The entries a step added to a list.\<close>

definition newEntries :: "pdf \<Rightarrow> error + pdf \<Rightarrow> error + (call \<times> rat) list" where
  "newEntries p r = map_sum id (\<lambda>q. drop (length (calls p)) (calls q)) r"

text \<open>
  A surface \<open>q\<close> extends a surface \<open>p\<close> with entries that satisfy \<open>P\<close> when it has
  the top margin and the page break trigger of \<open>p\<close>, and the calls of \<open>p\<close> followed
  by entries that all satisfy \<open>P\<close>.
\<close>

definition extendsWith :: "(call \<times> rat \<Rightarrow> bool) \<Rightarrow> pdf \<Rightarrow> pdf \<Rightarrow> bool" where
  "extendsWith P p q =
     (topMargin q = topMargin p
      \<and> pageBreakTrigger q = pageBreakTrigger p
      \<and> prefix (calls p) (calls q)
      \<and> list_all P (drop (length (calls p)) (calls q)))"


text \<open>
  Two surfaces that a step cannot tell apart by where it draws: same cursor, same top
  margin, same page break trigger. Two steps, from \<open>p\<close> to \<open>p'\<close> and from \<open>q\<close> to
  \<open>q'\<close>, draw alike when they add the same entries and leave two such surfaces.
\<close>

definition sameCursor :: "pdf \<Rightarrow> pdf \<Rightarrow> bool" where
  "sameCursor p q =
     (curY p = curY q \<and> topMargin p = topMargin q
      \<and> pageBreakTrigger p = pageBreakTrigger q)"

definition drawAlike :: "pdf \<Rightarrow> pdf \<Rightarrow> pdf \<Rightarrow> pdf \<Rightarrow> bool" where
  "drawAlike p p' q q' =
     (sameCursor p' q'
      \<and> prefix (calls p) (calls p')
      \<and> prefix (calls q) (calls q')
      \<and> drop (length (calls p)) (calls p') = drop (length (calls q)) (calls q'))"

text \<open>
  Pagination of the item rows, as the specification asks for it: exactly one page break
  per threshold crossing (each crossing is followed at once by a page break, each page
  break follows at once a crossing, so there are as many of the one as of the other),
  and the table header \<open>hdr\<close> printed at once after each page break.
\<close>

definition paginatesRows :: "env \<Rightarrow> call list \<Rightarrow> (call \<times> rat) list \<Rightarrow> bool" where
  "paginatesRows e hdr tr =
     (breakAfterEachCrossing e tr
      \<and> breakOnlyAfterCrossing e tr
      \<and> \<not> startsWithPageBreak tr
      \<and> length (filter isPageBreak tr) = length (filter (crossesThreshold e) tr)
      \<and> headerAfterEachBreak hdr tr)"

section \<open>Examples\<close>

text \<open>
  The item of the specification's scenarios (quantity 2, unit price 100, no item
  discount, a tax of 20 percent), an item without price, an item whose tax is an
  amount, and an item without tax.
\<close>

definition scenarioItem :: item where
  "scenarioItem =
     \<lparr> quantity = 2, unitPrice = 100, itemDiscount = None, Tax = Some (TaxPercent 20) \<rparr>"

definition zeroPricedItem :: item where
  "zeroPricedItem =
     \<lparr> quantity = 3, unitPrice = 0, itemDiscount = None, Tax = Some (TaxPercent 20) \<rparr>"

definition flatTaxItem :: item where
  "flatTaxItem =
     \<lparr> quantity = 1, unitPrice = 50, itemDiscount = None, Tax = Some (TaxAmount 7) \<rparr>"

definition untaxedItem :: item where
  "untaxedItem = \<lparr> quantity = 1, unitPrice = 10, itemDiscount = None, Tax = None \<rparr>"

text \<open>
  An environment for the examples: an A4 page in millimetres that gofpdf breaks beyond
  277, sums of coordinates exact as they are on whole numbers, every item row 50 high
  and on the page it starts on, a wrapped text as high as its line, texts encoded as
  they are, amounts printed as a fixed text.
\<close>

definition exampleEnv :: env where
  "exampleEnv =
     \<lparr> BaseMargin = 10, BaseMarginTop = 20, MaxPageHeight = 260,
       autoPageBreakTrigger = 277,
       float64Add = (\<lambda>x y. x + y),
       BaseTextColor = (35, 35, 35), DarkBgColor = (212, 212, 212),
       GreyBgColor = (232, 232, 232), GreyTextColor = (82, 82, 82),
       BaseTextFontSize = 8, LargeTextFontSize = 10,
       ItemColNameOffset = 10, ItemColUnitPriceOffset = 80, ItemColQuantityOffset = 103,
       ItemColTotalHTOffset = 113, ItemColTaxOffset = 140, ItemColDiscountOffset = 157,
       ItemColTotalTTCOffset = 175,
       timeNowFormat = (\<lambda>layout. ''30/10/2026''),
       encodeString = (\<lambda>s. s),
       typeAsString = (\<lambda>d. ''INVOICE''),
       FormatMoneyDecimal = (\<lambda>ac m. Symbol ac @ ''#''),
       decimalString = (\<lambda>m. ''#''),
       decimalStringFixed = (\<lambda>m n. ''#''),
       applyHeaderResult = (\<lambda>h d. None),
       applyFooterResult = (\<lambda>h d. None),
       companyContactBottom = (\<lambda>c y. y + 30),
       customerContactBottom = (\<lambda>c y. y + 25),
       itemColBottom = (\<lambda>opts i y. y + 50),
       multiCellBottom = (\<lambda>w h txt y. y + h),
       htmlWriteBottom = (\<lambda>lineHt txt y. y + lineHt),
       companyContactPages = (\<lambda>c y. 0),
       customerContactPages = (\<lambda>c y. 0),
       itemColPages = (\<lambda>opts i y. 0),
       multiCellPages = (\<lambda>w h txt y. 0),
       htmlWritePages = (\<lambda>lineHt txt y. 0),
       pointToUnit = (\<lambda>pt. pt * 127 / 360) \<rparr>"

definition exampleOptions :: options where
  "exampleOptions =
     \<lparr> AutoPrint = False, CurrencySymbol = ''EUR'', CurrencyPrecision = 2,
       CurrencyDecimal = ''.'', CurrencyThousand = '' '',
       TextRefTitle = ''Ref.'', TextVersionTitle = ''Version'', TextDateTitle = ''Date'',
       TextItemsNameTitle = ''Name'', TextItemsUnitCostTitle = ''Unit price'',
       TextItemsQuantityTitle = ''Qty'', TextItemsTotalHTTitle = ''Total no tax'',
       TextItemsTaxTitle = ''Tax'', TextItemsDiscountTitle = ''Discount'',
       TextItemsTotalTTCTitle = ''Total with tax'', TextTotalTotal = ''TOTAL'',
       TextTotalDiscounted = ''TOTAL DISCOUNTED'', TextTotalTax = ''TAX'',
       TextTotalWithTax = ''TOTAL WITH TAX'', TextPaymentTermTitle = ''Payment term'' \<rparr>"

text \<open>A document with no date, no discount and three items, the last without tax.\<close>

definition exampleDoc :: document where
  "exampleDoc =
     \<lparr> Options = exampleOptions, Header = None, Footer = None,
       Ref = ''R1'', Version = '''', Date = '''', Description = '''',
       Notes = ''Thanks'', PaymentTerm = '''',
       Company = Contact ''Seller'', Customer = Contact ''Buyer'',
       Items = [scenarioItem, flatTaxItem, untaxedItem],
       Discount = None, DefaultTax = Some (TaxPercent 10) \<rparr>"

text \<open>A page without calls yet, the cursor at 110.\<close>

definition emptyPdf :: pdf where
  "emptyPdf =
     \<lparr> curY = 110, topMargin = 20, pageBreakTrigger = 277, page = 1, fontSizePt = 8,
       calls = [], callPages = [] \<rparr>"

text \<open>The surface Build starts the first page of the example document on.\<close>

definition exampleBase :: pdf where
  "exampleBase =
     \<lparr> curY = 10, topMargin = 20, pageBreakTrigger = 277, page = 0, fontSizePt = 12,
       calls = [(CallNew ''P'' ''mm'' ''A4'' '''', 0), (CallSetMargins 10 20 10, 0),
                (CallSetXY 10 10, 10), (CallSetTextColor 35 35 35, 10)],
       callPages = [0, 0, 0, 0] \<rparr>"

section \<open>Facts about decimal division\<close>

lemma floor_rat_numeral_div:
  "\<lfloor>(numeral a :: rat) / numeral b\<rfloor> = numeral a div numeral b"
  using floor_divide_of_int_eq [of "numeral a" "numeral b", where ?'a = rat] by simp

lemma Div_100: "Div x 100 = Inr (DivBy100 x)"
  by (simp add: Div_def DivBy100_def)

lemma Div_nonzero: "b \<noteq> 0 \<Longrightarrow> Div a b = Inr (divRound a b)"
  by (simp add: Div_def)

lemma Div_zero: "Div a 0 = Inl DivisionByZero"
  by (simp add: Div_def)

lemma floor_rat_one_div:
  "\<lfloor>(1 :: rat) / numeral b\<rfloor> = 1 div numeral b"
  using floor_divide_of_int_eq [of 1 "numeral b", where ?'a = rat] by simp

lemma floor_rat_neg_numeral_div:
  "\<lfloor>- (numeral a :: rat) / numeral b\<rfloor> = - numeral a div numeral b"
  using floor_divide_of_int_eq [of "- numeral a" "numeral b", where ?'a = rat] by simp

lemma roundHalfAway_close: "\<bar>of_int (roundHalfAway q) - q\<bar> \<le> 1 / 2"
proof (cases "0 \<le> q")
  case True
  then have r: "roundHalfAway q = \<lfloor>q + 1 / 2\<rfloor>"
    by (simp add: roundHalfAway_def)
  show ?thesis
    unfolding r using floor_correct [of "q + 1 / 2"] by linarith
next
  case False
  then have r: "roundHalfAway q = - \<lfloor>- q + 1 / 2\<rfloor>"
    by (simp add: roundHalfAway_def)
  show ?thesis
    unfolding r using floor_correct [of "- q + 1 / 2"] by (simp only: of_int_minus) linarith
qed

text \<open>The decimal quotient is within half a unit of the sixteenth decimal of the exact one.\<close>

lemma divRound_close: "\<bar>divRound a b - a / b\<bar> \<le> 1 / (2 * 10 ^ DivisionPrecision)"
proof -
  define s :: rat where "s = 10 ^ DivisionPrecision"
  have s: "0 < s" by (simp add: s_def)
  have "divRound a b - a / b = (of_int (roundHalfAway (a / b * s)) - a / b * s) / s"
    using s by (simp add: divRound_def s_def diff_divide_distrib)
  then have "\<bar>divRound a b - a / b\<bar> = \<bar>of_int (roundHalfAway (a / b * s)) - a / b * s\<bar> / s"
    using s by (simp add: abs_divide)
  also have "\<dots> \<le> (1 / 2) / s"
    using roundHalfAway_close [of "a / b * s"] s by (intro divide_right_mono) auto
  finally show ?thesis by (simp add: s_def)
qed

lemmas decimal_eval =
  divRound_def roundHalfAway_def DivisionPrecision_def DivBy100_def
  floor_rat_numeral_div floor_rat_one_div floor_rat_neg_numeral_div

section \<open>Facts about the totals\<close>

lemma foldl_add_sum_list:
  "foldl (\<lambda>acc x. acc + f x) s xs = s + sum_list (map f xs)" for s :: rat
  by (induction xs arbitrary: s) (simp_all add: add.assoc)

lemma sumItemTotals_sum_list:
  "sumItemTotals its = (\<Sum>i\<leftarrow>its. totalWithoutTaxAndWithDiscount i)"
  by (simp add: sumItemTotals_def foldl_add_sum_list)

lemma addDiscountedTax_contribution:
  "addDiscountedTax dp acc i = acc + itemTaxContribution dp i"
  by (simp add: addDiscountedTax_def itemTaxContribution_def DivBy100_def Let_def
      split: option.splits tax.splits)

lemma foldl_addDiscountedTax:
  "foldl (addDiscountedTax dp) acc its = acc + (\<Sum>i\<leftarrow>its. itemTaxContribution dp i)"
  by (induction its arbitrary: acc) (simp_all add: addDiscountedTax_contribution add.assoc)

lemma computeTotals_None:
  "computeTotals None its =
     Inr \<lparr> Total = sumItemTotals its, TotalWithDiscount = 0,
           TotalTax = (\<Sum>i\<leftarrow>its. taxWithDiscount i),
           TotalWithTax = sumItemTotals its + (\<Sum>i\<leftarrow>its. taxWithDiscount i),
           DiscountPct = None \<rparr>"
  by (simp add: computeTotals_def sumTax_def applyDocumentDiscount_def bindE_def
      foldl_add_sum_list Let_def)

lemma computeTotals_Percent:
  "computeTotals (Some (DiscountPercent p)) its =
     Inr \<lparr> Total = sumItemTotals its,
           TotalWithDiscount = sumItemTotals its - sumItemTotals its * divRound p 100,
           TotalTax = (\<Sum>i\<leftarrow>its. itemTaxContribution p i),
           TotalWithTax = sumItemTotals its - sumItemTotals its * divRound p 100
                          + (\<Sum>i\<leftarrow>its. itemTaxContribution p i),
           DiscountPct = Some p \<rparr>"
  by (simp add: computeTotals_def sumTax_def applyDocumentDiscount_def bindE_def
      effectiveDiscountPercent_def foldl_addDiscountedTax DivBy100_def Let_def)

lemma computeTotals_Amount:
  "computeTotals (Some (DiscountAmount a)) its =
     (if sumItemTotals its - a = 0 then Inl DivisionByZero
      else Inr \<lparr> Total = sumItemTotals its,
           TotalWithDiscount = sumItemTotals its - a,
           TotalTax =
             (\<Sum>i\<leftarrow>its. itemTaxContribution (divRound (a * 100) (sumItemTotals its - a)) i),
           TotalWithTax = sumItemTotals its - a
             + (\<Sum>i\<leftarrow>its. itemTaxContribution (divRound (a * 100) (sumItemTotals its - a)) i),
           DiscountPct = Some (divRound (a * 100) (sumItemTotals its - a)) \<rparr>)"
  by (simp add: computeTotals_def sumTax_def applyDocumentDiscount_def bindE_def
      effectiveDiscountPercent_def foldl_addDiscountedTax Div_def Let_def)

lemma itemTaxContribution_amount:
  "Tax i = Some (TaxAmount a) \<Longrightarrow> itemTaxContribution dp i = a"
  by (simp add: itemTaxContribution_def)

lemma taxWithDiscount_amount:
  "Tax i = Some (TaxAmount a) \<Longrightarrow> taxWithDiscount i = a"
  by (simp add: taxWithDiscount_def)

lemmas items_eval =
  sumItemTotals_def totalWithoutTaxAndWithDiscount_def subtotal_def taxWithDiscount_def
  itemTaxContribution_def scenarioItem_def zeroPricedItem_def flatTaxItem_def
  untaxedItem_def

section \<open>Facts about the examples\<close>

lemma exampleEnv_sel:
  "BaseMargin exampleEnv = 10" "BaseMarginTop exampleEnv = 20"
  "MaxPageHeight exampleEnv = 260" "autoPageBreakTrigger exampleEnv = 277"
  "float64Add exampleEnv x y = x + y"
  "BaseTextColor exampleEnv = (35, 35, 35)" "DarkBgColor exampleEnv = (212, 212, 212)"
  "GreyBgColor exampleEnv = (232, 232, 232)" "GreyTextColor exampleEnv = (82, 82, 82)"
  "BaseTextFontSize exampleEnv = 8" "LargeTextFontSize exampleEnv = 10"
  "ItemColNameOffset exampleEnv = 10" "ItemColUnitPriceOffset exampleEnv = 80"
  "ItemColQuantityOffset exampleEnv = 103" "ItemColTotalHTOffset exampleEnv = 113"
  "ItemColTaxOffset exampleEnv = 140" "ItemColDiscountOffset exampleEnv = 157"
  "ItemColTotalTTCOffset exampleEnv = 175"
  "encodeString exampleEnv s = s"
  "itemColBottom exampleEnv opts i y = y + 50" "itemColPages exampleEnv opts i y = 0"
  by (simp_all add: exampleEnv_def)

lemma exampleDoc_sel:
  "Options exampleDoc = exampleOptions" "Header exampleDoc = None" "Footer exampleDoc = None"
  "Version exampleDoc = []" "Date exampleDoc = []" "Notes exampleDoc = ''Thanks''"
  "Items exampleDoc = [scenarioItem, flatTaxItem, untaxedItem]"
  "Discount exampleDoc = None" "DefaultTax exampleDoc = Some (TaxPercent 10)"
  by (simp_all add: exampleDoc_def)

lemma exampleOptions_sel:
  "TextItemsNameTitle exampleOptions = ''Name''"
  "TextItemsUnitCostTitle exampleOptions = ''Unit price''"
  "TextItemsQuantityTitle exampleOptions = ''Qty''"
  "TextItemsTotalHTTitle exampleOptions = ''Total no tax''"
  "TextItemsTaxTitle exampleOptions = ''Tax''"
  "TextItemsDiscountTitle exampleOptions = ''Discount''"
  "TextItemsTotalTTCTitle exampleOptions = ''Total with tax''"
  "TextDateTitle exampleOptions = ''Date''"
  by (simp_all add: exampleOptions_def)

lemma exampleItems_sel:
  "Tax scenarioItem = Some (TaxPercent 20)" "Tax flatTaxItem = Some (TaxAmount 7)"
  "Tax untaxedItem = None"
  by (simp_all add: scenarioItem_def flatTaxItem_def untaxedItem_def)

lemma emptyPdf_sel:
  "curY emptyPdf = 110" "topMargin emptyPdf = 20" "pageBreakTrigger emptyPdf = 277"
  "calls emptyPdf = []"
  by (simp_all add: emptyPdf_def)

section \<open>Facts about the drawing surface\<close>

lemmas surface_defs =
  GetY_def SetMargins_def SetXY_def SetX_def SetY_def AddPage_def SetTextColor_def
  SetFillColor_def SetFont_def GetFontSize_def Rect_def CellFormat_def MultiCell_def
  SetRightMargin_def HTMLWrite_def SetJavascript_def appendColTo_def

lemma emit_sel:
  "calls (emit c p) = calls p @ [(c, curY p)]"
  "callPages (emit c p) = callPages p @ [page p]"
  "curY (emit c p) = curY p"
  "topMargin (emit c p) = topMargin p"
  "pageBreakTrigger (emit c p) = pageBreakTrigger p"
  "page (emit c p) = page p"
  "fontSizePt (emit c p) = fontSizePt p"
  by (simp_all add: emit_def)

text \<open>The automatic page break adds no call, and nothing at all when the cell fits.\<close>

lemma autoPageBreak_sel:
  "calls (autoPageBreak e h p) = calls p"
  "callPages (autoPageBreak e h p) = callPages p"
  "topMargin (autoPageBreak e h p) = topMargin p"
  "pageBreakTrigger (autoPageBreak e h p) = pageBreakTrigger p"
  "fontSizePt (autoPageBreak e h p) = fontSizePt p"
  by (simp_all add: autoPageBreak_def)


lemmas surface_sel = surface_defs emit_sel autoPageBreak_sel Let_def

text \<open>
  drawsTableTitles adds the calls of the table header, none of them a page break or an
  item row, and keeps the margin and the trigger.
\<close>

lemma drawsTableTitles_calls:
  "\<exists>hs. calls (drawsTableTitles e d p) = calls p @ hs
     \<and> map fst hs = tableHeaderCalls e d (curY p)
     \<and> list_all (\<lambda>en. \<not> isPageBreak en \<and> \<not> isItemRow en) hs"
  by (simp add: drawsTableTitles_def tableHeaderCalls_def surface_sel isPageBreak_def
      isItemRow_def isRowCall_def)

lemma drawsTableTitles_frame:
  "topMargin (drawsTableTitles e d p) = topMargin p"
  "pageBreakTrigger (drawsTableTitles e d p) = pageBreakTrigger p"
  by (simp_all add: drawsTableTitles_def surface_sel)

lemma tableHeaderCalls_texts:
  "cellTexts (tableHeaderCalls e d y) = map (encodeString e) (columnTitles d)"
  by (simp add: tableHeaderCalls_def columnTitles_def)

lemma tableHeaderCalls_no_row:
  "list_all (\<lambda>c. \<not> isRowCall c) (tableHeaderCalls e d y)"
  by (simp add: tableHeaderCalls_def isRowCall_def)

section \<open>Facts about reading the list of calls\<close>

lemma breakAfterEachCrossing_append:
  "breakAfterEachCrossing e xs \<Longrightarrow> breakAfterEachCrossing e ys
   \<Longrightarrow> breakAfterEachCrossing e (xs @ ys)"
proof (induction e xs rule: breakAfterEachCrossing.induct)
  case (2 e en)
  then show ?case by (cases ys) simp_all
qed simp_all

lemma breakOnlyAfterCrossing_append:
  "breakOnlyAfterCrossing e xs \<Longrightarrow> breakOnlyAfterCrossing e ys
   \<Longrightarrow> \<not> startsWithPageBreak ys \<Longrightarrow> breakOnlyAfterCrossing e (xs @ ys)"
proof (induction e xs rule: breakOnlyAfterCrossing.induct)
  case (2 e en)
  then show ?case by (cases ys) (simp_all add: startsWithPageBreak_def)
qed simp_all

lemma headerAfterEachBreak_append:
  "headerAfterEachBreak hdr xs \<Longrightarrow> headerAfterEachBreak hdr ys
   \<Longrightarrow> headerAfterEachBreak hdr (xs @ ys)"
  by (induction xs) (auto intro: prefix_prefix)

lemma startsWithPageBreak_append:
  "xs \<noteq> [] \<Longrightarrow> startsWithPageBreak (xs @ ys) = startsWithPageBreak xs"
  by (cases xs) (simp_all add: startsWithPageBreak_def)

lemma paginatesRows_Nil: "paginatesRows e hdr []"
  by (simp add: paginatesRows_def startsWithPageBreak_def)

lemma paginatesRows_append:
  assumes "paginatesRows e hdr xs" and "paginatesRows e hdr ys" and "xs \<noteq> []"
  shows "paginatesRows e hdr (xs @ ys)"
  using assms
  by (simp add: paginatesRows_def breakAfterEachCrossing_append breakOnlyAfterCrossing_append
      headerAfterEachBreak_append startsWithPageBreak_append)

text \<open>Entries that are neither page breaks nor item rows leave every reading as it is.\<close>

lemma plain_breakAfterEachCrossing:
  "list_all (\<lambda>en. \<not> isPageBreak en \<and> \<not> isItemRow en) xs \<Longrightarrow> breakAfterEachCrossing e xs"
  by (induction e xs rule: breakAfterEachCrossing.induct) (simp_all add: crossesThreshold_def)

lemma plain_breakOnlyAfterCrossing:
  "list_all (\<lambda>en. \<not> isPageBreak en \<and> \<not> isItemRow en) xs \<Longrightarrow> breakOnlyAfterCrossing e xs"
  by (induction e xs rule: breakOnlyAfterCrossing.induct) simp_all

lemma plain_headerAfterEachBreak:
  "list_all (\<lambda>en. \<not> isPageBreak en \<and> \<not> isItemRow en) xs \<Longrightarrow> headerAfterEachBreak hdr xs"
  by (induction xs) simp_all

lemma plain_filter:
  "list_all (\<lambda>en. \<not> isPageBreak en \<and> \<not> isItemRow en) xs
   \<Longrightarrow> filter isPageBreak xs = [] \<and> filter (crossesThreshold e) xs = []"
  by (induction xs) (simp_all add: crossesThreshold_def)

text \<open>The entries of one turn of the loop: a row that stays within the page \<dots>\<close>

lemma paginatesRows_row_within:
  assumes "\<not> y1 > MaxPageHeight e"
  shows "paginatesRows e hdr [(CallAppendColTo opts i, y1), (CallSetX x, y1), (CallSetY y2, y2)]"
  using assms
  by (simp add: paginatesRows_def crossesThreshold_def isPageBreak_def isItemRow_def isRowCall_def
      startsWithPageBreak_def)

text \<open>\<dots> and a row that crosses the threshold.\<close>

lemma paginatesRows_row_crossing:
  assumes "y1 > MaxPageHeight e"
    and plain: "list_all (\<lambda>en. \<not> isPageBreak en \<and> \<not> isItemRow en) hs"
  shows "paginatesRows e (map fst hs)
           ([(CallAppendColTo opts i, y1), (CallAddPage, tm)] @ hs
            @ [(CallSetFont f s z, y3), (CallSetX x, y3), (CallSetY y2, y2)])"
proof -
  let ?tail = "hs @ [(CallSetFont f s z, y3), (CallSetX x, y3), (CallSetY y2, y2)]"
  have tail: "list_all (\<lambda>en. \<not> isPageBreak en \<and> \<not> isItemRow en) ?tail"
    using plain by (simp add: isPageBreak_def isItemRow_def isRowCall_def)
  have "breakAfterEachCrossing e ((CallAppendColTo opts i, y1) # (CallAddPage, tm) # ?tail)"
    using plain_breakAfterEachCrossing [OF tail, of e]
    by (cases ?tail) (simp_all add: isPageBreak_def crossesThreshold_def isItemRow_def isRowCall_def)
  moreover have "breakOnlyAfterCrossing e ((CallAppendColTo opts i, y1) # (CallAddPage, tm) # ?tail)"
    using plain_breakOnlyAfterCrossing [OF tail, of e] tail assms(1)
    by (cases ?tail) (simp_all add: isPageBreak_def crossesThreshold_def isItemRow_def isRowCall_def)
  moreover have "headerAfterEachBreak (map fst hs)
      ((CallAppendColTo opts i, y1) # (CallAddPage, tm) # ?tail)"
    using plain_headerAfterEachBreak [OF tail, of "map fst hs"]
    by (simp add: isPageBreak_def)
  moreover have "length (filter isPageBreak ((CallAppendColTo opts i, y1) # (CallAddPage, tm) # ?tail))
      = length (filter (crossesThreshold e) ((CallAppendColTo opts i, y1) # (CallAddPage, tm) # ?tail))"
    using plain_filter [OF tail, of e] assms(1)
    by (simp add: isPageBreak_def crossesThreshold_def isItemRow_def isRowCall_def)
  ultimately show ?thesis
    by (simp add: paginatesRows_def startsWithPageBreak_def isPageBreak_def)
qed

text \<open>One turn of the loop paginates its row, and so does the loop.\<close>

lemma appendItemsBody_paginates:
  "\<exists>seg. calls (snd (appendItemsBody e d i p)) = calls p @ seg \<and> seg \<noteq> []
     \<and> topMargin (snd (appendItemsBody e d i p)) = topMargin p
     \<and> pageBreakTrigger (snd (appendItemsBody e d i p)) = pageBreakTrigger p
     \<and> paginatesRows e (tableHeaderCalls e d (topMargin p)) seg
     \<and> map fst (filter isItemRow seg)
         = [CallAppendColTo (Options d) (fst (appendItemsBody e d i p))]"
proof -
  let ?item1 = "if Tax i = None then i\<lparr> Tax := DefaultTax d \<rparr> else i"
  let ?p1 = "appendColTo e (Options d) ?item1 p"
  let ?y1 = "itemColBottom e (Options d) ?item1 (curY p)"
  let ?row = "(CallAppendColTo (Options d) ?item1, ?y1)"
  have p1: "calls ?p1 = calls p @ [?row]" "curY ?p1 = ?y1" "topMargin ?p1 = topMargin p"
    "pageBreakTrigger ?p1 = pageBreakTrigger p"
    by (simp_all add: surface_sel)
  have item1: "fst (appendItemsBody e d i p) = ?item1"
    by (simp add: appendItemsBody_def Let_def del: run.simps)
  show ?thesis
  proof (cases "?y1 > MaxPageHeight e")
    case False
    then have res: "snd (appendItemsBody e d i p)
        = run [SetX 10, \<lambda>p. SetY (float64Add e (GetY p) 6) p] ?p1"
      by (simp add: appendItemsBody_def Let_def GetY_def p1 del: run.simps)
    have "calls (snd (appendItemsBody e d i p))
        = calls p @ [?row, (CallSetX 10, ?y1),
            (CallSetY (float64Add e ?y1 6), float64Add e ?y1 6)]"
      unfolding res by (simp add: surface_sel)
    moreover have "topMargin (snd (appendItemsBody e d i p)) = topMargin p"
      "pageBreakTrigger (snd (appendItemsBody e d i p)) = pageBreakTrigger p"
      unfolding res by (simp_all add: surface_sel)
    ultimately show ?thesis
      using paginatesRows_row_within [OF False]
      by (simp add: item1 isItemRow_def isRowCall_def)
  next
    case True
    let ?q = "AddPage ?p1"
    let ?t = "drawsTableTitles e d ?q"
    have q: "calls ?q = calls p @ [?row, (CallAddPage, topMargin p)]" "curY ?q = topMargin p"
      "topMargin ?q = topMargin p" "pageBreakTrigger ?q = pageBreakTrigger p"
      by (simp_all add: surface_sel)
    obtain hs where hs: "calls ?t = calls ?q @ hs"
        "map fst hs = tableHeaderCalls e d (topMargin p)"
        "list_all (\<lambda>en. \<not> isPageBreak en \<and> \<not> isItemRow en) hs"
      using drawsTableTitles_calls [of e d ?q] q(2) by auto
    have res: "snd (appendItemsBody e d i p)
        = run [SetX 10, \<lambda>p. SetY (float64Add e (GetY p) 6) p]
            (SetFont ''Helvetica'' '''' 8 ?t)"
      using True by (simp add: appendItemsBody_def Let_def GetY_def p1)
    have tail: "calls (run [SetX 10, \<lambda>p. SetY (float64Add e (GetY p) 6) p]
            (SetFont ''Helvetica'' '''' 8 t))
        = calls t @ [(CallSetFont ''Helvetica'' '''' 8, curY t), (CallSetX 10, curY t),
               (CallSetY (float64Add e (curY t) 6), float64Add e (curY t) 6)]"
      "topMargin (run [SetX 10, \<lambda>p. SetY (float64Add e (GetY p) 6) p]
            (SetFont ''Helvetica'' '''' 8 t)) = topMargin t"
      "pageBreakTrigger (run [SetX 10, \<lambda>p. SetY (float64Add e (GetY p) 6) p]
            (SetFont ''Helvetica'' '''' 8 t)) = pageBreakTrigger t" for t
      by (simp_all add: surface_sel)
    have "calls (snd (appendItemsBody e d i p))
        = calls p @ ([?row, (CallAddPage, topMargin p)] @ hs
            @ [(CallSetFont ''Helvetica'' '''' 8, curY ?t), (CallSetX 10, curY ?t),
               (CallSetY (float64Add e (curY ?t) 6), float64Add e (curY ?t) 6)])"
      unfolding res tail hs(1) q(1) by simp
    moreover have "topMargin (snd (appendItemsBody e d i p)) = topMargin p"
      "pageBreakTrigger (snd (appendItemsBody e d i p)) = pageBreakTrigger p"
      unfolding res tail drawsTableTitles_frame q by simp_all
    moreover have "paginatesRows e (tableHeaderCalls e d (topMargin p))
        ([?row, (CallAddPage, topMargin p)] @ hs
         @ [(CallSetFont ''Helvetica'' '''' 8, curY ?t), (CallSetX 10, curY ?t),
            (CallSetY (float64Add e (curY ?t) 6), float64Add e (curY ?t) 6)])"
      using paginatesRows_row_crossing [OF True hs(3)] hs(2) by simp
    moreover have "filter isItemRow hs = []"
      using hs(3) by (simp add: filter_empty_conv list_all_iff)
    ultimately show ?thesis
      by (simp add: item1 isItemRow_def isRowCall_def)
  qed
qed

lemma appendItemsLoop_paginates:
  "\<exists>tr. calls (snd (appendItemsLoop e d its p)) = calls p @ tr
     \<and> topMargin (snd (appendItemsLoop e d its p)) = topMargin p
     \<and> pageBreakTrigger (snd (appendItemsLoop e d its p)) = pageBreakTrigger p
     \<and> paginatesRows e (tableHeaderCalls e d (topMargin p)) tr
     \<and> map fst (filter isItemRow tr)
         = map (CallAppendColTo (Options d)) (fst (appendItemsLoop e d its p))"
proof (induction its arbitrary: p)
  case Nil
  show ?case by (simp add: paginatesRows_Nil)
next
  case (Cons i rest)
  obtain item1 p1 where body: "appendItemsBody e d i p = (item1, p1)"
    by (cases "appendItemsBody e d i p")
  obtain seg where seg: "calls p1 = calls p @ seg" "seg \<noteq> []" "topMargin p1 = topMargin p"
      "pageBreakTrigger p1 = pageBreakTrigger p"
      "paginatesRows e (tableHeaderCalls e d (topMargin p)) seg"
      "map fst (filter isItemRow seg) = [CallAppendColTo (Options d) item1]"
    using appendItemsBody_paginates [of e d i p] body by auto
  obtain tr where tr: "calls (snd (appendItemsLoop e d rest p1)) = calls p1 @ tr"
      "topMargin (snd (appendItemsLoop e d rest p1)) = topMargin p1"
      "pageBreakTrigger (snd (appendItemsLoop e d rest p1)) = pageBreakTrigger p1"
      "paginatesRows e (tableHeaderCalls e d (topMargin p1)) tr"
      "map fst (filter isItemRow tr)
         = map (CallAppendColTo (Options d)) (fst (appendItemsLoop e d rest p1))"
    using Cons.IH [of p1] by auto
  have "snd (appendItemsLoop e d (i # rest) p) = snd (appendItemsLoop e d rest p1)"
    and "fst (appendItemsLoop e d (i # rest) p) = item1 # fst (appendItemsLoop e d rest p1)"
    using body by (simp_all split: prod.splits)
  then show ?case
    using seg tr paginatesRows_append [of e _ seg tr] by auto
qed

section \<open>Facts about extending a surface\<close>

lemma extendsWith_iff:
  "extendsWith P p q \<longleftrightarrow>
     topMargin q = topMargin p \<and> pageBreakTrigger q = pageBreakTrigger p
     \<and> (\<exists>tr. calls q = calls p @ tr \<and> list_all P tr)"
  by (auto simp add: extendsWith_def prefix_def)

lemma extendsWith_refl: "extendsWith P p p"
  by (simp add: extendsWith_iff)

lemma extendsWith_trans:
  "extendsWith P p q \<Longrightarrow> extendsWith P q r \<Longrightarrow> extendsWith P p r"
  by (auto simp add: extendsWith_iff)

lemma extendsWith_mono:
  "extendsWith P p q \<Longrightarrow> (\<And>en. P en \<Longrightarrow> Q en) \<Longrightarrow> extendsWith Q p q"
  by (auto simp add: extendsWith_iff list_all_iff)

lemma extendsWith_nth:
  "extendsWith P p q \<Longrightarrow> n < length (calls p) \<Longrightarrow> calls q ! n = calls p ! n"
  by (auto simp add: extendsWith_iff nth_append)

lemma extendsWith_run:
  assumes "\<And>f p. f \<in> set fs \<Longrightarrow> extendsWith P p (f p)"
  shows "extendsWith P p (run fs p)"
  using assms
proof (induction fs arbitrary: p)
  case Nil
  show ?case by (simp add: extendsWith_refl)
next
  case (Cons f fs)
  have "extendsWith P p (f p)" by (simp add: Cons.prems)
  moreover have "extendsWith P (f p) (run fs (f p))"
    by (rule Cons.IH) (simp add: Cons.prems)
  ultimately show ?case by (simp add: extendsWith_trans [of P p "f p"])
qed

text \<open>
  Every call of build.go but \<^verbatim>\<open>SetMargins\<close> extends the surface, by its own entry, and
  none but \<^verbatim>\<open>AddPage\<close> by a page break.
\<close>

lemma extendsWith_calls:
  "extendsWith (\<lambda>en. True) p (SetXY x y p)"
  "extendsWith (\<lambda>en. True) p (SetX x p)"
  "extendsWith (\<lambda>en. True) p (SetY y p)"
  "extendsWith (\<lambda>en. True) p (AddPage p)"
  "extendsWith (\<lambda>en. True) p (SetTextColor r g b p)"
  "extendsWith (\<lambda>en. True) p (SetFillColor r g b p)"
  "extendsWith (\<lambda>en. True) p (SetFont ff fs fz p)"
  "extendsWith (\<lambda>en. True) p (Rect x y w h st p)"
  "extendsWith (\<lambda>en. True) p (CellFormat e w h txt bo lm al fi li ls p)"
  "extendsWith (\<lambda>en. True) p (MultiCell e w h txt bo al fi p)"
  "extendsWith (\<lambda>en. True) p (HTMLWrite e lh txt p)"
  "extendsWith (\<lambda>en. True) p (SetRightMargin m p)"
  "extendsWith (\<lambda>en. True) p (SetJavascript js p)"
  by (simp_all add: extendsWith_iff surface_sel)

lemma extendsWith_calls_notBreak:
  "extendsWith (\<lambda>en. \<not> isPageBreak en) p (SetXY x y p)"
  "extendsWith (\<lambda>en. \<not> isPageBreak en) p (SetX x p)"
  "extendsWith (\<lambda>en. \<not> isPageBreak en) p (SetY y p)"
  "extendsWith (\<lambda>en. \<not> isPageBreak en) p (SetTextColor r g b p)"
  "extendsWith (\<lambda>en. \<not> isPageBreak en) p (SetFillColor r g b p)"
  "extendsWith (\<lambda>en. \<not> isPageBreak en) p (SetFont ff fs fz p)"
  "extendsWith (\<lambda>en. \<not> isPageBreak en) p (Rect x y w h st p)"
  "extendsWith (\<lambda>en. \<not> isPageBreak en) p (CellFormat e w h txt bo lm al fi li ls p)"
  "extendsWith (\<lambda>en. \<not> isPageBreak en) p (MultiCell e w h txt bo al fi p)"
  "extendsWith (\<lambda>en. \<not> isPageBreak en) p (HTMLWrite e lh txt p)"
  "extendsWith (\<lambda>en. \<not> isPageBreak en) p (SetRightMargin m p)"
  "extendsWith (\<lambda>en. \<not> isPageBreak en) p (SetJavascript js p)"
  by (simp_all add: extendsWith_iff surface_sel isPageBreak_def)



lemma appendDescription_extends: "extendsWith (\<lambda>en. True) p (appendDescription e d p)"
  unfolding appendDescription_def
  by (auto intro!: extendsWith_run intro: extendsWith_calls simp del: run.simps)

lemma drawsTableTitles_extends: "extendsWith (\<lambda>en. True) p (drawsTableTitles e d p)"
  using drawsTableTitles_calls [of e d p]
  by (auto simp add: extendsWith_iff drawsTableTitles_frame list_all_iff)

lemma appendItemsLoop_extends:
  "extendsWith (\<lambda>en. True) p (snd (appendItemsLoop e d its p))"
  using appendItemsLoop_paginates [of e d its p]
  by (auto simp add: extendsWith_iff list_all_iff)

lemma appendItems_extends: "extendsWith (\<lambda>en. True) p (snd (appendItems e d p))"
proof -
  let ?p0 = "run [drawsTableTitles e d, SetX 10, \<lambda>p. SetY (float64Add e (GetY p) 8) p,
                  SetFont ''Helvetica'' '''' 8] p"
  have "extendsWith (\<lambda>en. True) p ?p0"
    by (rule extendsWith_run) (auto intro: extendsWith_calls drawsTableTitles_extends)
  moreover have "snd (appendItems e d p) = snd (appendItemsLoop e d (Items d) ?p0)"
    by (simp add: appendItems_def Let_def split: prod.splits)
  ultimately show ?thesis
    using appendItemsLoop_extends [of ?p0 e d "Items d"]
    by (simp add: extendsWith_trans [of _ p ?p0])
qed

lemma appendItems_document:
  "fst (appendItems e d p) = d\<lparr> Items := fst (appendItemsLoop e d (Items d)
     (run [drawsTableTitles e d, SetX 10, \<lambda>p. SetY (float64Add e (GetY p) 8) p,
           SetFont ''Helvetica'' '''' 8] p)) \<rparr>"
  by (simp add: appendItems_def Let_def split: prod.splits)

lemma contacts_extend:
  "extendsWith (\<lambda>en. True) p (snd (appendCompanyContactToDoc e c p))"
  "extendsWith (\<lambda>en. True) p (snd (appendCustomerContactToDoc e c p))"
  by (simp_all add: appendCompanyContactToDoc_def appendCustomerContactToDoc_def Let_def
      extendsWith_iff emit_sel)

lemma checkPageHeight_extends: "extendsWith (\<lambda>en. True) p (checkPageHeight e d p)"
  by (simp add: checkPageHeight_def Let_def extendsWith_refl extendsWith_calls)

lemma appendNotes_extends: "extendsWith (\<lambda>en. \<not> isPageBreak en) p (appendNotes e d p)"
  unfolding appendNotes_def Let_def
  by (auto intro!: extendsWith_run simp add: extendsWith_refl extendsWith_calls_notBreak
      split: prod.splits simp del: run.simps)

lemma totalRows_extend:
  "extendsWith (\<lambda>en. \<not> isPageBreak en) p (appendTotalRow e d ac t p)"
  "extendsWith (\<lambda>en. \<not> isPageBreak en) p (discountedTitle e d baseY p)"
  "extendsWith (\<lambda>en. \<not> isPageBreak en) p (discountedAmount e ac t baseY descString p)"
  "extendsWith (\<lambda>en. \<not> isPageBreak en) p (appendTaxRows e d ac t p)"
  unfolding appendTotalRow_def discountedTitle_def discountedAmount_def appendTaxRows_def
  by (auto intro!: extendsWith_run simp add: extendsWith_calls_notBreak simp del: run.simps)

lemma appendTotalDiscounted_extends:
  "appendTotalDiscounted e d ac t p = Inr q \<Longrightarrow> extendsWith (\<lambda>en. \<not> isPageBreak en) p q"
  unfolding appendTotalDiscounted_def Let_def bindE_def
  by (auto intro: extendsWith_trans [OF totalRows_extend(2) totalRows_extend(3)]
      simp add: extendsWith_calls_notBreak split: option.splits sum.splits)

lemma appendTotal_extends:
  assumes "appendTotal e d p = Inr q"
  shows "extendsWith (\<lambda>en. \<not> isPageBreak en) p q"
proof -
  obtain ac t p2 where mid: "appendTotalDiscounted e d ac t (appendTotalRow e d ac t p) = Inr p2"
    and q: "q = appendTaxRows e d ac t p2"
    using assms unfolding appendTotal_def Let_def bindE_def
    by (auto split: sum.splits)
  have "extendsWith (\<lambda>en. \<not> isPageBreak en) p (appendTotalRow e d ac t p)"
    by (rule totalRows_extend)
  moreover have "extendsWith (\<lambda>en. \<not> isPageBreak en) (appendTotalRow e d ac t p) p2"
    using mid by (rule appendTotalDiscounted_extends)
  moreover have "extendsWith (\<lambda>en. \<not> isPageBreak en) p2 q"
    unfolding q by (rule totalRows_extend)
  ultimately show ?thesis
    by (blast intro: extendsWith_trans)
qed

lemma appendPaymentTerm_extends:
  "extendsWith (\<lambda>en. \<not> isPageBreak en) p (appendPaymentTerm e d p)"
  unfolding appendPaymentTerm_def Let_def
  by (auto intro!: extendsWith_run simp add: extendsWith_calls_notBreak simp del: run.simps)

lemma buildFromNotes_extends:
  assumes "buildFromNotes e d p = Inr q"
  shows "extendsWith (\<lambda>en. \<not> isPageBreak en) p q"
proof -
  obtain p1 where p1: "appendTotal e d (appendNotes e d p) = Inr p1"
    and q: "q = (if AutoPrint (Options d) then SetJavascript ''print(true);''
                   (appendPaymentTerm e d p1) else appendPaymentTerm e d p1)"
    using assms by (auto simp add: buildFromNotes_def bindE_def Let_def split: sum.splits)
  have "extendsWith (\<lambda>en. \<not> isPageBreak en) p p1"
    using appendNotes_extends appendTotal_extends [OF p1] by (rule extendsWith_trans)
  moreover have "extendsWith (\<lambda>en. \<not> isPageBreak en) p1 (appendPaymentTerm e d p1)"
    by (rule appendPaymentTerm_extends)
  moreover have "extendsWith (\<lambda>en. \<not> isPageBreak en) (appendPaymentTerm e d p1) q"
    unfolding q by (simp add: extendsWith_refl extendsWith_calls_notBreak)
  ultimately show ?thesis
    by (blast intro: extendsWith_trans)
qed

section \<open>Facts about drawing alike\<close>

lemma drawAlike_iff:
  "drawAlike p p' q q' \<longleftrightarrow>
     sameCursor p' q' \<and> (\<exists>tr. calls p' = calls p @ tr \<and> calls q' = calls q @ tr)"
  by (auto simp add: drawAlike_def prefix_def)

lemma drawAlike_refl: "sameCursor p q \<Longrightarrow> drawAlike p p q q"
  by (simp add: drawAlike_iff)

lemma drawAlike_trans:
  "drawAlike p p' q q' \<Longrightarrow> drawAlike p' p'' q' q'' \<Longrightarrow> drawAlike p p'' q q''"
  by (auto simp add: drawAlike_iff)

lemma drawAlike_sameCursor: "drawAlike p p' q q' \<Longrightarrow> sameCursor p' q'"
  by (simp add: drawAlike_iff)

lemma drawAlike_run:
  assumes "\<And>f p q. f \<in> set fs \<Longrightarrow> sameCursor p q \<Longrightarrow> drawAlike p (f p) q (f q)"
    and "sameCursor p q"
  shows "drawAlike p (run fs p) q (run fs q)"
  using assms
proof (induction fs arbitrary: p q)
  case Nil
  then show ?case by (simp add: drawAlike_refl)
next
  case (Cons f fs)
  have step: "drawAlike p (f p) q (f q)"
    using Cons.prems by simp
  have "drawAlike (f p) (run fs (f p)) (f q) (run fs (f q))"
    by (rule Cons.IH) (simp_all add: Cons.prems drawAlike_sameCursor [OF step])
  then show ?case
    using step by (simp add: drawAlike_trans [of p "f p" q "f q"])
qed

text \<open>
  The calls of the totals block draw alike on two surfaces with the same cursor: where
  a cell goes depends on the cursor, the top margin and the page break trigger only.
\<close>

lemma drawAlike_calls:
  "sameCursor p q \<Longrightarrow> drawAlike p (SetXY x y p) q (SetXY x y q)"
  "sameCursor p q \<Longrightarrow> drawAlike p (SetX x p) q (SetX x q)"
  "sameCursor p q \<Longrightarrow> drawAlike p (SetY y p) q (SetY y q)"
  "sameCursor p q \<Longrightarrow>
     drawAlike p (SetY (float64Add e (GetY p) k) p) q (SetY (float64Add e (GetY q) k) q)"
  "sameCursor p q \<Longrightarrow> drawAlike p (SetTextColor r g b p) q (SetTextColor r g b q)"
  "sameCursor p q \<Longrightarrow> drawAlike p (SetFillColor r g b p) q (SetFillColor r g b q)"
  "sameCursor p q \<Longrightarrow> drawAlike p (SetFont ff fs fz p) q (SetFont ff fs fz q)"
  "sameCursor p q \<Longrightarrow>
     drawAlike p (Rect x (GetY p) w h st p) q (Rect x (GetY q) w h st q)"
  "sameCursor p q \<Longrightarrow>
     drawAlike p (CellFormat e w h txt bo lm al fi li ls p)
       q (CellFormat e w h txt bo lm al fi li ls q)"
  by (simp_all add: drawAlike_iff sameCursor_def surface_sel autoPageBreak_def)

lemma totalRows_alike:
  "sameCursor p q \<Longrightarrow>
     drawAlike p (appendTotalRow e d ac t p) q (appendTotalRow e d ac t q)"
  "sameCursor p q \<Longrightarrow>
     drawAlike p (discountedTitle e d baseY p) q (discountedTitle e d baseY q)"
  "sameCursor p q \<Longrightarrow>
     drawAlike p (discountedAmount e ac t baseY descString p)
       q (discountedAmount e ac t baseY descString q)"
  "sameCursor p q \<Longrightarrow>
     drawAlike p (appendTaxRows e d ac t p) q (appendTaxRows e d ac t q)"
  unfolding appendTotalRow_def discountedTitle_def discountedAmount_def appendTaxRows_def
  by (auto intro!: drawAlike_run simp add: drawAlike_calls simp del: run.simps)

lemma appendTotalDiscounted_alike:
  assumes "sameCursor p q"
  shows "(\<exists>err. appendTotalDiscounted e d ac t p = Inl err
            \<and> appendTotalDiscounted e d ac t q = Inl err)
       \<or> (\<exists>p' q'. appendTotalDiscounted e d ac t p = Inr p'
            \<and> appendTotalDiscounted e d ac t q = Inr q' \<and> drawAlike p p' q q')"
proof (cases "Discount d")
  case None
  then show ?thesis
    using assms by (simp add: appendTotalDiscounted_def drawAlike_calls)
next
  case (Some disc)
  have y: "GetY q = GetY p"
    using assms by (simp add: sameCursor_def GetY_def)
  let ?baseY = "float64Add e (GetY p) 10"
  have title: "drawAlike p (discountedTitle e d ?baseY p) q (discountedTitle e d ?baseY q)"
    using assms by (rule totalRows_alike)
  show ?thesis
  proof (cases "discountDescription e ac disc (Total t) (TotalWithDiscount t)")
    case (Inl err)
    then show ?thesis
      by (simp add: appendTotalDiscounted_def Some bindE_def Let_def)
  next
    case (Inr descString)
    have "drawAlike (discountedTitle e d ?baseY p)
        (discountedAmount e ac t ?baseY descString (discountedTitle e d ?baseY p))
        (discountedTitle e d ?baseY q)
        (discountedAmount e ac t ?baseY descString (discountedTitle e d ?baseY q))"
      using drawAlike_sameCursor [OF title] by (rule totalRows_alike)
    then show ?thesis
      using title
      by (simp add: appendTotalDiscounted_def Some Inr bindE_def Let_def y
          drawAlike_trans [OF title])
  qed
qed

lemma appendTotal_alike:
  assumes "sameCursor p q"
  shows "(\<exists>err. appendTotal e d p = Inl err \<and> appendTotal e d q = Inl err)
       \<or> (\<exists>p' q'. appendTotal e d p = Inr p' \<and> appendTotal e d q = Inr q'
            \<and> drawAlike p p' q q')"
proof (cases "computeTotals (Discount d) (Items d)")
  case (Inl err)
  then show ?thesis
    by (simp add: appendTotal_def bindE_def Let_def)
next
  case (Inr t)
  let ?ac = "\<lparr> Symbol = encodeString e (CurrencySymbol (Options d)),
                 Precision = CurrencyPrecision (Options d),
                 Thousand = CurrencyThousand (Options d),
                 Decimal = CurrencyDecimal (Options d) \<rparr>"
  have row: "drawAlike p (appendTotalRow e d ?ac t p) q (appendTotalRow e d ?ac t q)"
    using assms by (rule totalRows_alike)
  consider (panic) err where
      "appendTotalDiscounted e d ?ac t (appendTotalRow e d ?ac t p) = Inl err"
      "appendTotalDiscounted e d ?ac t (appendTotalRow e d ?ac t q) = Inl err"
    | (drawn) p' q' where
      "appendTotalDiscounted e d ?ac t (appendTotalRow e d ?ac t p) = Inr p'"
      "appendTotalDiscounted e d ?ac t (appendTotalRow e d ?ac t q) = Inr q'"
      "drawAlike (appendTotalRow e d ?ac t p) p' (appendTotalRow e d ?ac t q) q'"
    using appendTotalDiscounted_alike [OF drawAlike_sameCursor [OF row], of e d ?ac t]
    by blast
  then show ?thesis
  proof cases
    case panic
    then show ?thesis
      by (simp add: appendTotal_def Inr bindE_def Let_def)
  next
    case drawn
    have "drawAlike p' (appendTaxRows e d ?ac t p') q' (appendTaxRows e d ?ac t q')"
      using drawAlike_sameCursor [OF drawn(3)] by (rule totalRows_alike)
    then have "drawAlike p (appendTaxRows e d ?ac t p') q (appendTaxRows e d ?ac t q')"
      using row drawn(3) by (blast intro: drawAlike_trans)
    then show ?thesis
      using drawn(1,2) by (simp add: appendTotal_def Inr bindE_def Let_def)
  qed
qed

text \<open>appendNotes leaves the cursor, the margin and the trigger as it found them.\<close>

lemma appendNotes_sameCursor: "sameCursor (appendNotes e d p) p"
  by (simp add: appendNotes_def sameCursor_def surface_sel split: prod.splits)

section \<open>Facts about the totals block\<close>











section \<open>Facts about Build\<close>

lemma appendTotal_without_discount_returns:
  "Discount d = None \<Longrightarrow> \<exists>q. appendTotal e d p = Inr q"
  by (simp add: appendTotal_def computeTotals_None appendTotalDiscounted_def bindE_def Let_def)


lemma buildBaseDoc_plain:
  "Header d = None \<Longrightarrow> Footer d = None \<Longrightarrow>
   buildBaseDoc e d =
     Inr \<lparr> curY = 10, topMargin = BaseMarginTop e,
           pageBreakTrigger = autoPageBreakTrigger e, page = 0, fontSizePt = 12,
           calls = [(CallNew ''P'' ''mm'' ''A4'' '''', 0),
                    (CallSetMargins (BaseMargin e) (BaseMarginTop e) (BaseMargin e), 0),
                    (CallSetXY 10 10, 10),
                    (CallSetTextColor (red (BaseTextColor e)) (green (BaseTextColor e))
                       (blue (BaseTextColor e)), 10)],
           callPages = [0, 0, 0, 0] \<rparr>"
  by (simp add: buildBaseDoc_def bindE_def New_def Let_def surface_defs emit_def)

text \<open>Lines 45 to 55 of Build: the first page, down to the title and the metas.\<close>

lemma buildToItems_extends_metas:
  "extendsWith (\<lambda>en. True)
     (run [AddPage, SetFont ''Helvetica'' '''' 12, appendTitle e d, appendMetas e d] pdf0)
     (snd (buildToItems e d pdf0))"
proof -
  let ?pdf1 = "run [AddPage, SetFont ''Helvetica'' '''' 12, appendTitle e d, appendMetas e d] pdf0"
  let ?pdf2 = "snd (appendCompanyContactToDoc e (Company d) ?pdf1)"
  let ?pdf3 = "snd (appendCustomerContactToDoc e (Customer d) ?pdf2)"
  let ?companyBottom = "fst (appendCompanyContactToDoc e (Company d) ?pdf1)"
  let ?customerBottom = "fst (appendCustomerContactToDoc e (Customer d) ?pdf2)"
  let ?pdf4 = "if ?customerBottom > ?companyBottom then SetXY 10 ?customerBottom ?pdf3
               else SetXY 10 ?companyBottom ?pdf3"
  have res: "buildToItems e d pdf0 = appendItems e d (appendDescription e d ?pdf4)"
    by (simp add: buildToItems_def Let_def split_beta del: run.simps)
  have pdf4: "extendsWith (\<lambda>en. True) ?pdf3 ?pdf4"
    by (simp add: extendsWith_calls)
  have "extendsWith (\<lambda>en. True) ?pdf1 ?pdf3"
    using contacts_extend(1) contacts_extend(2) by (rule extendsWith_trans)
  then have "extendsWith (\<lambda>en. True) ?pdf1 ?pdf4"
    using pdf4 by (rule extendsWith_trans)
  then have "extendsWith (\<lambda>en. True) ?pdf1 (appendDescription e d ?pdf4)"
    using appendDescription_extends by (rule extendsWith_trans)
  then show ?thesis
    unfolding res using appendItems_extends by (rule extendsWith_trans)
qed


lemma buildToItems_document:
  "Discount (fst (buildToItems e d pdf0)) = Discount d
   \<and> Options (fst (buildToItems e d pdf0)) = Options d
   \<and> Notes (fst (buildToItems e d pdf0)) = Notes d"
  by (simp add: buildToItems_def appendItems_def Let_def split: prod.splits)

lemma Build_unfold:
  "Validate d = None \<Longrightarrow> buildBaseDoc e d = Inr pdf0 \<Longrightarrow>
   Build e d =
     buildFromNotes e (fst (buildToItems e d pdf0))
       (checkPageHeight e (fst (buildToItems e d pdf0)) (snd (buildToItems e d pdf0)))"
  by (simp add: Build_def bindE_def split: prod.splits)

lemma Build_without_discount_returns:
  assumes "Validate d = None" "Header d = None" "Footer d = None" "Discount d = None"
  shows "\<exists>p. Build e d = Inr p"
proof -
  obtain pdf0 where base: "buildBaseDoc e d = Inr pdf0"
    using assms by (simp add: buildBaseDoc_plain)
  let ?d1 = "fst (buildToItems e d pdf0)"
  have "Discount ?d1 = None"
    using assms by (simp add: buildToItems_document)
  then obtain q where "appendTotal e ?d1
      (appendNotes e ?d1 (checkPageHeight e ?d1 (snd (buildToItems e d pdf0)))) = Inr q"
    using appendTotal_without_discount_returns by blast
  then show ?thesis
    by (simp add: Build_unfold [OF assms(1) base] buildFromNotes_def bindE_def Let_def)
qed

text \<open>The seventeenth call of Build prints the date, when there is neither header,
  footer nor version.\<close>

lemma metas_date_line:
  assumes "Version d = []" and "length (calls pdf0) = 4"
  shows "length (calls (run [AddPage, SetFont ''Helvetica'' '''' 12, appendTitle e d,
             appendMetas e d] pdf0)) = 17
     \<and> fst (calls (run [AddPage, SetFont ''Helvetica'' '''' 12, appendTitle e d,
             appendMetas e d] pdf0) ! 16)
       = CallCellFormat 80 4
           (encodeString e (sprintfColon (encodeString e (TextDateTitle (Options d)))
              (if length (Date d) > 0 then Date d else timeNowFormat e ''02/01/2006'')))
           ''0'' 0 ''R'' False 0 ''''"
  using assms
  by (simp add: appendTitle_def appendMetas_def surface_sel nth_append)

lemma Build_date_line:
  assumes "Build e d = Inr p" and "Header d = None" and "Footer d = None"
    and "Version d = []"
  shows "fst (calls p ! 16)
       = CallCellFormat 80 4
           (encodeString e (sprintfColon (encodeString e (TextDateTitle (Options d)))
              (if length (Date d) > 0 then Date d else timeNowFormat e ''02/01/2006'')))
           ''0'' 0 ''R'' False 0 ''''"
proof -
  have valid: "Validate d = None"
    using assms(1) by (simp add: Build_def split: option.splits)
  obtain pdf0 where base: "buildBaseDoc e d = Inr pdf0" and len: "length (calls pdf0) = 4"
    using assms by (simp add: buildBaseDoc_plain)
  let ?m = "run [AddPage, SetFont ''Helvetica'' '''' 12, appendTitle e d, appendMetas e d] pdf0"
  let ?d1 = "fst (buildToItems e d pdf0)"
  let ?pdf1 = "snd (buildToItems e d pdf0)"
  have "extendsWith (\<lambda>en. True) ?m (checkPageHeight e ?d1 ?pdf1)"
    using buildToItems_extends_metas checkPageHeight_extends by (rule extendsWith_trans)
  moreover have "extendsWith (\<lambda>en. True) (checkPageHeight e ?d1 ?pdf1) p"
    using assms(1) buildFromNotes_extends [of e ?d1 "checkPageHeight e ?d1 ?pdf1" p]
    by (simp add: Build_unfold [OF valid base] extendsWith_mono)
  ultimately have "extendsWith (\<lambda>en. True) ?m p"
    by (rule extendsWith_trans)
  then have "calls p ! 16 = calls ?m ! 16"
    using metas_date_line [OF assms(4) len, of e] by (simp add: extendsWith_nth del: run.simps)
  then show ?thesis
    using metas_date_line [OF assms(4) len, of e] by (simp del: run.simps)
qed

section \<open>The clock\<close>

text \<open>Only appendMetas reads the clock, and only for a document without date.\<close>

lemma surface_clock:
  "autoPageBreak (e\<lparr> timeNowFormat := c \<rparr>) = autoPageBreak e"
  "CellFormat (e\<lparr> timeNowFormat := c \<rparr>) = CellFormat e"
  "MultiCell (e\<lparr> timeNowFormat := c \<rparr>) = MultiCell e"
  "HTMLWrite (e\<lparr> timeNowFormat := c \<rparr>) = HTMLWrite e"
  "GetFontSize (e\<lparr> timeNowFormat := c \<rparr>) = GetFontSize e"
  "appendColTo (e\<lparr> timeNowFormat := c \<rparr>) = appendColTo e"
  "applyHeader (e\<lparr> timeNowFormat := c \<rparr>) = applyHeader e"
  "applyFooter (e\<lparr> timeNowFormat := c \<rparr>) = applyFooter e"
  "appendCompanyContactToDoc (e\<lparr> timeNowFormat := c \<rparr>) = appendCompanyContactToDoc e"
  "appendCustomerContactToDoc (e\<lparr> timeNowFormat := c \<rparr>) = appendCustomerContactToDoc e"
  "New (e\<lparr> timeNowFormat := c \<rparr>) = New e"
  by (simp_all add: fun_eq_iff autoPageBreak_def CellFormat_def MultiCell_def HTMLWrite_def
      GetFontSize_def appendColTo_def applyHeader_def applyFooter_def
      appendCompanyContactToDoc_def appendCustomerContactToDoc_def New_def)

lemma drawsTableTitles_clock:
  "drawsTableTitles (e\<lparr> timeNowFormat := c \<rparr>) = drawsTableTitles e"
  by (simp add: fun_eq_iff drawsTableTitles_def surface_clock del: run.simps)

lemma appendItemsBody_clock:
  "appendItemsBody (e\<lparr> timeNowFormat := c \<rparr>) = appendItemsBody e"
  by (simp add: fun_eq_iff appendItemsBody_def surface_clock drawsTableTitles_clock Let_def
      del: run.simps)

lemma appendItemsLoop_clock:
  "appendItemsLoop (e\<lparr> timeNowFormat := c \<rparr>) d its p = appendItemsLoop e d its p"
  by (induction its arbitrary: p) (simp_all add: appendItemsBody_clock)

lemma blocks_clock:
  "appendTitle (e\<lparr> timeNowFormat := c \<rparr>) = appendTitle e"
  "appendDescription (e\<lparr> timeNowFormat := c \<rparr>) = appendDescription e"
  "appendItems (e\<lparr> timeNowFormat := c \<rparr>) = appendItems e"
  "appendNotes (e\<lparr> timeNowFormat := c \<rparr>) = appendNotes e"
  "appendPaymentTerm (e\<lparr> timeNowFormat := c \<rparr>) = appendPaymentTerm e"
  "checkPageHeight (e\<lparr> timeNowFormat := c \<rparr>) = checkPageHeight e"
  "buildBaseDoc (e\<lparr> timeNowFormat := c \<rparr>) = buildBaseDoc e"
  by (simp_all add: fun_eq_iff appendTitle_def appendDescription_def appendItems_def
      appendNotes_def appendPaymentTerm_def checkPageHeight_def buildBaseDoc_def
      surface_clock drawsTableTitles_clock appendItemsLoop_clock Let_def del: run.simps
      cong: option.case_cong)

lemma discountDescription_clock:
  "discountDescription (e\<lparr> timeNowFormat := c \<rparr>) = discountDescription e"
  by (simp add: fun_eq_iff discountDescription_def split: prod.splits)

lemma totalRows_clock:
  "appendTotalRow (e\<lparr> timeNowFormat := c \<rparr>) = appendTotalRow e"
  "discountedTitle (e\<lparr> timeNowFormat := c \<rparr>) = discountedTitle e"
  "discountedAmount (e\<lparr> timeNowFormat := c \<rparr>) = discountedAmount e"
  "appendTaxRows (e\<lparr> timeNowFormat := c \<rparr>) = appendTaxRows e"
  by (simp_all add: fun_eq_iff appendTotalRow_def discountedTitle_def discountedAmount_def
      appendTaxRows_def surface_clock del: run.simps)

lemma appendTotalDiscounted_clock:
  "appendTotalDiscounted (e\<lparr> timeNowFormat := c \<rparr>) = appendTotalDiscounted e"
  by (simp add: fun_eq_iff appendTotalDiscounted_def discountDescription_clock totalRows_clock
      Let_def cong: option.case_cong)

lemma appendTotal_clock:
  "appendTotal (e\<lparr> timeNowFormat := c \<rparr>) = appendTotal e"
  by (simp add: fun_eq_iff appendTotal_def appendTotalDiscounted_clock totalRows_clock Let_def)

lemma appendMetas_clock:
  "Date d \<noteq> [] \<Longrightarrow> appendMetas (e\<lparr> timeNowFormat := c \<rparr>) d = appendMetas e d"
  by (simp add: appendMetas_def surface_clock Let_def del: run.simps)

lemma Build_clock:
  "Date d \<noteq> [] \<Longrightarrow> Build (e\<lparr> timeNowFormat := c \<rparr>) d = Build e d"
  by (simp add: Build_def buildToItems_def buildFromNotes_def blocks_clock surface_clock
      appendTotal_clock appendMetas_clock Let_def del: run.simps
      cong: option.case_cong prod.case_cong)

text \<open>The items as the loop of appendItems leaves them, and their total.\<close>

lemma appendItemsBody_item:
  "fst (appendItemsBody e d i p) = (if Tax i = None then i\<lparr> Tax := DefaultTax d \<rparr> else i)"
  by (simp add: appendItemsBody_def Let_def del: run.simps)

lemma appendItemsLoop_items:
  "fst (appendItemsLoop e d its p) =
     map (\<lambda>i. if Tax i = None then i\<lparr> Tax := DefaultTax d \<rparr> else i) its"
  by (induction its arbitrary: p) (simp_all add: split_beta appendItemsBody_item)

lemma itemTotal_default_tax:
  "totalWithoutTaxAndWithDiscount (if Tax i = None then i\<lparr> Tax := t \<rparr> else i)
     = totalWithoutTaxAndWithDiscount i"
  by (simp add: totalWithoutTaxAndWithDiscount_def subtotal_def split: option.splits)

lemma sumItemTotals_default_tax:
  "sumItemTotals (map (\<lambda>i. if Tax i = None then i\<lparr> Tax := t \<rparr> else i) its) = sumItemTotals its"
  by (simp add: sumItemTotals_sum_list comp_def itemTotal_default_tax)

lemma buildToItems_items:
  "Items (fst (buildToItems e d pdf0)) =
     map (\<lambda>i. if Tax i = None then i\<lparr> Tax := DefaultTax d \<rparr> else i) (Items d)"
  by (simp add: buildToItems_def appendItems_def appendItemsLoop_items Let_def split_beta
      del: run.simps)

text \<open>
  Build panics on a valid document whose discount is an amount equal to the total of
  its items.
\<close>

lemma Build_zero_denominator:
  assumes "Validate d = None" and "buildBaseDoc e d = Inr base"
    and "Discount d = Some (DiscountAmount a)" and "sumItemTotals (Items d) = a"
  shows "Build e d = Inl DivisionByZero"
proof -
  let ?d1 = "fst (buildToItems e d base)"
  have "computeTotals (Discount ?d1) (Items ?d1) = Inl DivisionByZero"
    using assms(3,4)
    by (simp add: buildToItems_document buildToItems_items computeTotals_Amount
        sumItemTotals_default_tax)
  then show ?thesis
    by (simp add: Build_unfold [OF assms(1,2)] buildFromNotes_def appendTotal_def bindE_def
        Let_def)
qed

text \<open>
  appendTotal panics at line 413 when the discount is an amount other than zero and the
  total of the items is zero.
\<close>

lemma appendTotal_zero_total:
  assumes "Discount d = Some (DiscountAmount a)" and "sumItemTotals (Items d) = 0"
    and "a \<noteq> 0"
  shows "appendTotal e d p = Inl DivisionByZero"
  using assms
  by (simp add: appendTotal_def computeTotals_Amount appendTotalDiscounted_def
      discountDescription_def Div_def bindE_def Let_def del: run.simps)

section \<open>The claims about the totals\<close>

text \<open>
  C1. The claim: when the denominator of the effective discount percentage is zero
  (for a discount given as an amount, the discounted total), computing the totals
  raises no division fault and the percentage is zero. The code has no such guard:
  line 340 divides by \<^verbatim>\<open>totalWithDiscount\<close> as it is, and line 413 by \<^verbatim>\<open>total\<close>. With a
  discount equal to the total of the items (200 on the scenario's item, 0 on an item
  without price) the division of line 340 panics, and Build with it. With a discount of
  50 on an item without price the percentage is -100, not zero, and appendTotal panics
  at line 413.
\<close>

theorem appendTotal_zero_denominator_panics:
  "computeTotals (Some (DiscountAmount 200)) [scenarioItem] = Inl DivisionByZero
   \<and> Build exampleEnv (exampleDoc\<lparr> Items := [scenarioItem],
        Discount := Some (DiscountAmount 200) \<rparr>) = Inl DivisionByZero
   \<and> computeTotals (Some (DiscountAmount 0)) [zeroPricedItem] = Inl DivisionByZero
   \<and> computeTotals (Some (DiscountAmount 50)) [zeroPricedItem] =
       Inr \<lparr> Total = 0, TotalWithDiscount = - 50, TotalTax = 0, TotalWithTax = - 50,
             DiscountPct = Some (- 100) \<rparr>
   \<and> appendTotal exampleEnv (exampleDoc\<lparr> Items := [zeroPricedItem],
        Discount := Some (DiscountAmount 50) \<rparr>) emptyPdf = Inl DivisionByZero"
proof -
  have "Build exampleEnv (exampleDoc\<lparr> Items := [scenarioItem],
        Discount := Some (DiscountAmount 200) \<rparr>) = Inl DivisionByZero"
    by (rule Build_zero_denominator [where a = 200 and base = exampleBase])
      (simp_all add: Validate_def buildBaseDoc_plain exampleDoc_def exampleBase_def
        exampleEnv_def red_def green_def blue_def items_eval)
  moreover have "appendTotal exampleEnv (exampleDoc\<lparr> Items := [zeroPricedItem],
        Discount := Some (DiscountAmount 50) \<rparr>) emptyPdf = Inl DivisionByZero"
    by (rule appendTotal_zero_total [where a = 50]) (simp_all add: items_eval)
  ultimately show ?thesis
    by (simp add: computeTotals_Amount items_eval decimal_eval)
qed

text \<open>
  C2. When the document has a discount and the totals are computed (the discount is a
  percentage, or an amount other than the total of the items), the total tax is the sum
  over the items of their contributions as the specification words them, with the
  effective discount percentage the code derived; and an item whose tax is an amount
  contributes that amount, which is also its tax when the document has no discount.
\<close>

theorem totalTax_with_document_discount:
  assumes "case disc of DiscountAmount a \<Rightarrow> sumItemTotals its \<noteq> a | DiscountPercent p \<Rightarrow> True"
  shows "\<exists>t dp. computeTotals (Some disc) its = Inr t
           \<and> DiscountPct t = Some dp
           \<and> TotalTax t = (\<Sum>i\<leftarrow>its. itemTaxContribution dp i)
           \<and> (\<forall>i a. Tax i = Some (TaxAmount a) \<longrightarrow>
                 itemTaxContribution dp i = a \<and> taxWithDiscount i = a)"
proof (cases disc)
  case (DiscountPercent p)
  then show ?thesis
    by (simp add: computeTotals_Percent itemTaxContribution_amount taxWithDiscount_amount)
next
  case (DiscountAmount a)
  with assms have "sumItemTotals its - a \<noteq> 0" by simp
  with DiscountAmount show ?thesis
    by (simp add: computeTotals_Amount itemTaxContribution_amount taxWithDiscount_amount)
qed

theorem totalTax_with_document_discount_witness:
  "sumItemTotals [scenarioItem, flatTaxItem] \<noteq> 50
   \<and> computeTotals (Some (DiscountAmount 50)) [scenarioItem, flatTaxItem] =
     Inr \<lparr> Total = 250, TotalWithDiscount = 200,
           TotalTax = 30 + 7, TotalWithTax = 237, DiscountPct = Some 25 \<rparr>
   \<and> itemTaxContribution 25 scenarioItem = 30
   \<and> itemTaxContribution 25 flatTaxItem = 7
   \<and> taxWithDiscount flatTaxItem = 7"
  using totalTax_with_document_discount
    [where disc = "DiscountAmount 50" and its = "[scenarioItem, flatTaxItem]"]
  by (simp add: computeTotals_Amount items_eval decimal_eval)

text \<open>
  C3. For a discount given as an amount a, other than the total of the items, the
  discounted total is total - a and the effective discount percentage is the decimal
  quotient of a * 100 by the discounted total, which is the exact quotient to within
  half a unit of the sixteenth decimal. For a discount given as a percentage p the
  discounted total is total - total * (p / 100), with the decimal quotient p / 100 as
  line 324 computes it, which is the exact total - total * p / 100 to within the total
  times half a unit of the sixteenth decimal; and the percentage is p itself.
\<close>

theorem discounted_total_and_percent:
  "(sumItemTotals its \<noteq> a \<longrightarrow>
      (\<exists>t dp. computeTotals (Some (DiscountAmount a)) its = Inr t
         \<and> Total t = sumItemTotals its
         \<and> TotalWithDiscount t = Total t - a
         \<and> DiscountPct t = Some dp
         \<and> dp = divRound (a * 100) (TotalWithDiscount t)
         \<and> \<bar>dp - a * 100 / TotalWithDiscount t\<bar> \<le> 1 / (2 * 10 ^ 16)))
   \<and> (\<exists>t. computeTotals (Some (DiscountPercent p)) its = Inr t
         \<and> Total t = sumItemTotals its
         \<and> TotalWithDiscount t = Total t - Total t * divRound p 100
         \<and> \<bar>TotalWithDiscount t - (Total t - Total t * p / 100)\<bar>
             \<le> \<bar>Total t\<bar> / (2 * 10 ^ 16)
         \<and> DiscountPct t = Some p)"
proof -
  let ?T = "sumItemTotals its"
  have "?T - ?T * divRound p 100 - (?T - ?T * p / 100) = - (?T * (divRound p 100 - p / 100))"
    by (simp add: algebra_simps)
  then have "\<bar>?T - ?T * divRound p 100 - (?T - ?T * p / 100)\<bar>
      = \<bar>?T\<bar> * \<bar>divRound p 100 - p / 100\<bar>"
    by (simp only: abs_minus abs_mult)
  also have "\<dots> \<le> \<bar>?T\<bar> * (1 / (2 * 10 ^ 16))"
    using divRound_close [of p 100]
    by (intro mult_left_mono) (simp_all add: DivisionPrecision_def)
  finally have percent: "\<bar>?T - ?T * divRound p 100 - (?T - ?T * p / 100)\<bar>
      \<le> \<bar>?T\<bar> / (2 * 10 ^ 16)"
    by simp
  show ?thesis
    using divRound_close [of "a * 100" "?T - a"] percent
    by (simp add: computeTotals_Amount computeTotals_Percent DivisionPrecision_def)
qed

theorem discounted_total_and_percent_witness:
  "sumItemTotals [scenarioItem] \<noteq> 50
   \<and> computeTotals (Some (DiscountAmount 50)) [scenarioItem] =
       Inr \<lparr> Total = 200, TotalWithDiscount = 150,
             TotalTax = 266666666666666667 / 10 ^ 16,
             TotalWithTax = 150 + 266666666666666667 / 10 ^ 16,
             DiscountPct = Some (333333333333333333 / 10 ^ 16) \<rparr>
   \<and> divRound (50 * 100) 150 = 333333333333333333 / 10 ^ 16
   \<and> computeTotals (Some (DiscountPercent 10)) [scenarioItem] =
       Inr \<lparr> Total = 200, TotalWithDiscount = 180, TotalTax = 36, TotalWithTax = 216,
             DiscountPct = Some 10 \<rparr>"
  using discounted_total_and_percent [where its = "[scenarioItem]" and a = 50 and p = 10]
  by (simp add: computeTotals_Amount computeTotals_Percent items_eval decimal_eval)

text \<open>
  C4. With no document discount the totals are always computed, and the grand total is
  the sum over the items of totalWithoutTaxAndWithDiscount() plus the sum over the
  items of taxWithDiscount().
\<close>

theorem grand_total_without_document_discount:
  "\<exists>t. computeTotals None its = Inr t
     \<and> TotalWithTax t =
         (\<Sum>i\<leftarrow>its. totalWithoutTaxAndWithDiscount i) + (\<Sum>i\<leftarrow>its. taxWithDiscount i)"
  by (simp add: computeTotals_None sumItemTotals_sum_list)

text \<open>
  C5. The claim: with no document discount, the computed discounted total equals the
  total. On the scenario's item, with no document discount, the total is 200 and
  \<^verbatim>\<open>totalWithDiscount\<close> is 0.
\<close>

theorem totalWithDiscount_without_discount_counterexample:
  "computeTotals None [scenarioItem] =
     Inr \<lparr> Total = 200, TotalWithDiscount = 0, TotalTax = 40, TotalWithTax = 240,
           DiscountPct = None \<rparr>
   \<and> TotalWithDiscount \<lparr> Total = 200, TotalWithDiscount = 0, TotalTax = 40,
        TotalWithTax = 240, DiscountPct = None \<rparr>
     \<noteq> Total \<lparr> Total = 200, TotalWithDiscount = 0, TotalTax = 40,
        TotalWithTax = 240, DiscountPct = None \<rparr>"
  by (simp add: computeTotals_None items_eval decimal_eval)

text \<open>
  C5, amended. \<^verbatim>\<open>totalWithDiscount\<close> is assigned only under \<^verbatim>\<open>d.Discount != nil\<close>: with
  no document discount it keeps its initial value 0 and is not read, and the grand
  total is total + totalTax, where total is the sum of the items' totals.
\<close>

theorem totalWithDiscount_without_discount:
  "\<exists>t. computeTotals None its = Inr t
     \<and> Total t = (\<Sum>i\<leftarrow>its. totalWithoutTaxAndWithDiscount i)
     \<and> TotalWithDiscount t = 0
     \<and> TotalWithTax t = Total t + TotalTax t"
  by (simp add: computeTotals_None sumItemTotals_sum_list)

section \<open>The claims about the layout\<close>

text \<open>
  C6. Whatever the items and the surface the loop of appendItems starts on, the calls
  it adds paginate the rows: every item row that leaves the cursor beyond
  \<^verbatim>\<open>MaxPageHeight\<close> is followed at once by one \<^verbatim>\<open>AddPage\<close>, every \<^verbatim>\<open>AddPage\<close> follows at
  once such a row (so there are as many page breaks as crossings), and every
  \<^verbatim>\<open>AddPage\<close> is followed at once by the table header: the grey band at the top of the
  new page and, in it, the seven column titles of the options, in the order of the
  columns. The header holds no item row, and the rows are those of the items, one each,
  in the order of the items. A page that gofpdf adds by itself while a row is drawn is
  not a page break of the loop.
\<close>

theorem item_loop_page_breaks:
  "\<exists>tr. calls (snd (appendItemsLoop e d its p)) = calls p @ tr
     \<and> paginatesRows e (tableHeaderCalls e d (topMargin p)) tr
     \<and> cellTexts (tableHeaderCalls e d (topMargin p)) = map (encodeString e) (columnTitles d)
     \<and> list_all (\<lambda>c. \<not> isRowCall c) (tableHeaderCalls e d (topMargin p))
     \<and> map fst (filter isItemRow tr)
         = map (CallAppendColTo (Options d)) (fst (appendItemsLoop e d its p))"
  using appendItemsLoop_paginates [of e d its p]
    tableHeaderCalls_texts [of e d "topMargin p"] tableHeaderCalls_no_row [of e d "topMargin p"]
  by auto

theorem item_loop_page_breaks_witness:
  "paginatesRows exampleEnv (tableHeaderCalls exampleEnv exampleDoc 20)
     (calls (snd (appendItemsLoop exampleEnv exampleDoc (Items exampleDoc) emptyPdf)))
   \<and> length (filter (crossesThreshold exampleEnv)
        (calls (snd (appendItemsLoop exampleEnv exampleDoc (Items exampleDoc) emptyPdf)))) = 1
   \<and> length (filter isPageBreak
        (calls (snd (appendItemsLoop exampleEnv exampleDoc (Items exampleDoc) emptyPdf)))) = 1
   \<and> map fst (take 19 (drop 8
        (calls (snd (appendItemsLoop exampleEnv exampleDoc (Items exampleDoc) emptyPdf)))))
       = tableHeaderCalls exampleEnv exampleDoc 20
   \<and> cellTexts (tableHeaderCalls exampleEnv exampleDoc 20)
       = [''Name'', ''Unit price'', ''Qty'', ''Total no tax'', ''Tax'', ''Discount'',
          ''Total with tax'']"
proof -
  let ?tr = "calls (snd (appendItemsLoop exampleEnv exampleDoc (Items exampleDoc) emptyPdf))"
  have ev: "?tr =
      [(CallAppendColTo exampleOptions scenarioItem, 160), (CallSetX 10, 160),
       (CallSetY 166, 166),
       (CallAppendColTo exampleOptions flatTaxItem, 216), (CallSetX 10, 216),
       (CallSetY 222, 222),
       (CallAppendColTo exampleOptions (untaxedItem\<lparr> Tax := Some (TaxPercent 10) \<rparr>), 272),
       (CallAddPage, 20), (CallSetX 10, 20), (CallSetY 25, 25),
       (CallSetFont ''Helvetica'' ''B'' 8, 25),
       (CallSetFillColor 232 232 232, 25), (CallRect 10 25 190 6 ''F'', 25),
       (CallSetX 10, 25),
       (CallCellFormat 70 6 ''Name'' ''0'' 0 '''' False 0 '''', 25),
       (CallSetX 80, 25),
       (CallCellFormat 23 6 ''Unit price'' ''0'' 0 '''' False 0 '''', 25),
       (CallSetX 103, 25),
       (CallCellFormat 37 6 ''Qty'' ''0'' 0 '''' False 0 '''', 25),
       (CallSetX 113, 25),
       (CallCellFormat 27 6 ''Total no tax'' ''0'' 0 '''' False 0 '''', 25),
       (CallSetX 140, 25),
       (CallCellFormat 17 6 ''Tax'' ''0'' 0 '''' False 0 '''', 25),
       (CallSetX 157, 25),
       (CallCellFormat 18 6 ''Discount'' ''0'' 0 '''' False 0 '''', 25),
       (CallSetX 175, 25),
       (CallCellFormat 15 6 ''Total with tax'' ''0'' 0 '''' False 0 '''', 25),
       (CallSetFont ''Helvetica'' '''' 8, 25), (CallSetX 10, 25), (CallSetY 31, 31)]"
    by (simp add: appendItemsBody_def drawsTableTitles_def surface_sel autoPageBreak_def
        exampleEnv_sel exampleDoc_sel exampleOptions_sel exampleItems_sel emptyPdf_sel
        red_def green_def blue_def)
  have counts: "length (filter (crossesThreshold exampleEnv) ?tr) = 1
      \<and> length (filter isPageBreak ?tr) = 1
      \<and> map fst (take 19 (drop 8 ?tr)) = tableHeaderCalls exampleEnv exampleDoc 20"
    unfolding ev
    by (simp add: tableHeaderCalls_def crossesThreshold_def isItemRow_def isRowCall_def
        isPageBreak_def exampleEnv_sel exampleDoc_sel exampleOptions_sel red_def green_def
        blue_def)
  have texts: "cellTexts (tableHeaderCalls exampleEnv exampleDoc 20)
       = [''Name'', ''Unit price'', ''Qty'', ''Total no tax'', ''Tax'', ''Discount'',
          ''Total with tax'']"
    by (simp add: tableHeaderCalls_def exampleEnv_sel exampleDoc_sel exampleOptions_sel)
  show ?thesis
    using item_loop_page_breaks [of exampleEnv exampleDoc "Items exampleDoc" emptyPdf]
      counts texts
    by (auto simp add: emptyPdf_sel)
qed



text \<open>
  C8. The claim: two runs of Build on the same document give the same output, with no
  dependence on the current time. appendMetas prints \<^verbatim>\<open>time.Now()\<close> when the document
  has no date (lines 133 to 136): the example document, which has none, gives two
  different outputs under two clocks.
\<close>

theorem build_clock_counterexample:
  "Build (exampleEnv\<lparr> timeNowFormat := (\<lambda>layout. ''31/10/2026'') \<rparr>) exampleDoc
   \<noteq> Build exampleEnv exampleDoc"
proof
  let ?e2 = "exampleEnv\<lparr> timeNowFormat := (\<lambda>layout. ''31/10/2026'') \<rparr>"
  assume same: "Build ?e2 exampleDoc = Build exampleEnv exampleDoc"
  have valid: "Validate exampleDoc = None"
    by (simp add: Validate_def exampleDoc_def)
  obtain p where p: "Build exampleEnv exampleDoc = Inr p"
    using Build_without_discount_returns [OF valid, of exampleEnv]
    by (auto simp add: exampleDoc_def)
  have "fst (calls p ! 16) = CallCellFormat 80 4 ''Date: 30/10/2026'' ''0'' 0 ''R'' False 0 ''''"
    using Build_date_line [OF p]
    by (simp add: exampleDoc_def exampleEnv_def exampleOptions_def sprintfColon_def)
  moreover have "fst (calls p ! 16) = CallCellFormat 80 4 ''Date: 31/10/2026'' ''0'' 0 ''R'' False 0 ''''"
    using Build_date_line [of ?e2 exampleDoc p] p same
    by (simp add: exampleDoc_def exampleEnv_def exampleOptions_def sprintfColon_def)
  ultimately show False by simp
qed

text \<open>
  C8, amended. For a document that has a date, Build does not depend on the clock: with
  the same document and the same environment but for the clock, it returns the same
  surface, or the same error.
\<close>

theorem build_independent_of_clock:
  "Date d \<noteq> [] \<Longrightarrow> Build (e\<lparr> timeNowFormat := clock \<rparr>) d = Build e d"
  by (rule Build_clock)

theorem build_independent_of_clock_witness:
  "Date (exampleDoc\<lparr> Date := ''30/10/2026'' \<rparr>) \<noteq> []
   \<and> Build (exampleEnv\<lparr> timeNowFormat := (\<lambda>layout. ''31/10/2026'') \<rparr>)
        (exampleDoc\<lparr> Date := ''30/10/2026'' \<rparr>)
     = Build exampleEnv (exampleDoc\<lparr> Date := ''30/10/2026'' \<rparr>)"
  using build_independent_of_clock
    [where d = "exampleDoc\<lparr> Date := ''30/10/2026'' \<rparr>" and e = exampleEnv
       and clock = "\<lambda>layout. ''31/10/2026''"]
  by simp

text \<open>
  C9. A document that fails validation is not built: Build returns the validation
  error and no surface, whatever the environment. The document without items is one.
\<close>

theorem invalid_document_not_built:
  "Validate d = Some err \<Longrightarrow> Build e d = Inl err"
  by (simp add: Build_def)

theorem invalid_document_not_built_witness:
  "Validate (exampleDoc\<lparr> Items := [] \<rparr>) = Some ValidationError
   \<and> Build exampleEnv (exampleDoc\<lparr> Items := [] \<rparr>) = Inl ValidationError"
  using invalid_document_not_built
    [where d = "exampleDoc\<lparr> Items := [] \<rparr>" and err = ValidationError and e = exampleEnv]
  by (simp add: Validate_def)

text \<open>
  C10. appendNotes leaves the cursor where it found it, with or without notes, and the
  totals block drawn after the notes has the entries, calls and cursor positions, it
  would have had without them. The notes may run over to another page: the block is
  then drawn at the same positions on the page the notes end on.
\<close>

theorem notes_leave_cursor:
  "GetY (appendNotes e d p) = GetY p
   \<and> newEntries (appendNotes e d p) (appendTotal e d (appendNotes e d p))
     = newEntries p (appendTotal e d p)"
proof -
  have "GetY (appendNotes e d p) = GetY p"
    using appendNotes_sameCursor [of e d p] by (simp add: sameCursor_def GetY_def)
  moreover have "newEntries (appendNotes e d p) (appendTotal e d (appendNotes e d p))
      = newEntries p (appendTotal e d p)"
    using appendTotal_alike [OF appendNotes_sameCursor [of e d p], of e d]
    by (auto simp add: newEntries_def drawAlike_def)
  ultimately show ?thesis
    by simp
qed

end
